theory Spec2Isabelle
  imports Complex_Main "HOL-Library.Word"
begin

unbundle bit_operations_syntax

section \<open>Common values\<close>

text \<open>
  A Node \<open>Buffer\<close> is a list of octets. A \<open>Date\<close> is its \<open>getTime()\<close> value, an
  integer number of milliseconds. A JavaScript \<open>number\<close> that holds a count, an index or a
  bit pattern is a \<open>nat\<close> or an \<open>int\<close>; one that holds a measurement is a \<open>real\<close>
  (the IEEE rounding of the double arithmetic is not modelled). A thrown \<open>Error\<close> is a
  value of the type \<open>error\<close>, one constructor for each throw site that matters below.

  During one call the clock is read at one instant: the parameter \<open>now\<close> of a function
  is the value of every \<open>Date.now()\<close> and \<open>new Date()\<close> of that call.
\<close>

type_synonym buffer = "8 word list"

type_synonym date = int

datatype error =
    UnsupportedCategory nat
  | IncompleteFSPEC
  | InsufficientData nat
  | RangeError
  | TypeError

definition bindE :: "'e + 'a \<Rightarrow> ('a \<Rightarrow> 'e + 'b) \<Rightarrow> 'e + 'b" where
  "bindE m f = (case m of Inl e \<Rightarrow> Inl e | Inr x \<Rightarrow> f x)"

subsection \<open>Rendering numbers\<close>

definition digitChar :: "nat \<Rightarrow> char" where
  "digitChar d = ''0123456789abcdefghijklmnopqrstuvwxyz'' ! d"

text \<open>\<open>n.toString(radix)\<close> for a non-negative integer \<open>n\<close> and a radix from 2 to 36.\<close>

function toStringRadix :: "nat \<Rightarrow> nat \<Rightarrow> string" where
  "toStringRadix radix n =
     (if radix < 2 then []
      else if n < radix then [digitChar n]
      else toStringRadix radix (n div radix) @ [digitChar (n mod radix)])"
  by pat_completeness auto
termination
  by (relation "measure (\<lambda>(radix, n). n)") auto

declare toStringRadix.simps [simp del]

definition padStart :: "nat \<Rightarrow> char \<Rightarrow> string \<Rightarrow> string" where
  "padStart width c s = replicate (width - length s) c @ s"

text \<open>\<open>toUpperCase\<close> on a string of octets changes the letters a to z only.\<close>

definition toUpperCase :: "string \<Rightarrow> string" where
  "toUpperCase s =
     map (\<lambda>c. case map_of (zip ''abcdefghijklmnopqrstuvwxyz'' ''ABCDEFGHIJKLMNOPQRSTUVWXYZ'') c of
                Some u \<Rightarrow> u | None \<Rightarrow> c) s"

definition isSpace :: "char \<Rightarrow> bool" where
  "isSpace c = ((of_char c :: nat) \<in> {9, 10, 11, 12, 13, 32})"

definition trim :: "string \<Rightarrow> string" where
  "trim s = rev (dropWhile isSpace (rev (dropWhile isSpace s)))"

subsection \<open>Buffer reads\<close>

text \<open>Every read of a \<open>Buffer\<close> outside its bounds throws a \<open>RangeError\<close>.\<close>

definition readUInt8 :: "buffer \<Rightarrow> int \<Rightarrow> error + nat" where
  "readUInt8 data i =
     (if 0 \<le> i \<and> i < int (length data) then Inr (unat (data ! nat i)) else Inl RangeError)"

definition readUInt16BE :: "buffer \<Rightarrow> int \<Rightarrow> error + nat" where
  "readUInt16BE data i =
     (if 0 \<le> i \<and> i + 2 \<le> int (length data)
      then Inr (unat (data ! nat i) * 256 + unat (data ! nat (i + 1)))
      else Inl RangeError)"

definition readInt16BE :: "buffer \<Rightarrow> int \<Rightarrow> error + int" where
  "readInt16BE data i =
     bindE (readUInt16BE data i)
       (\<lambda>u. Inr (if u < 32768 then int u else int u - 65536))"

definition readInt32BE :: "buffer \<Rightarrow> int \<Rightarrow> error + int" where
  "readInt32BE data i =
     (if 0 \<le> i \<and> i + 4 \<le> int (length data)
      then (let u = unat (data ! nat i) * 16777216 + unat (data ! nat (i + 1)) * 65536
                    + unat (data ! nat (i + 2)) * 256 + unat (data ! nat (i + 3))
            in Inr (if u < 2147483648 then int u else int u - 4294967296))
      else Inl RangeError)"

text \<open>
  \<open>data.subarray(start, end)\<close>: a negative index counts from the end, and both indices
  are clamped to the buffer.
\<close>

definition subarray :: "buffer \<Rightarrow> int \<Rightarrow> int \<Rightarrow> buffer" where
  "subarray data start end =
     (let len = int (length data);
          rel = (\<lambda>i. if i < 0 then max (len + i) 0 else min i len);
          s = rel start; e = rel end
      in if s < e then take (nat (e - s)) (drop (nat s) data) else [])"

section \<open>The ASTERIX decoder (AsterixDecoder.ts)\<close>

datatype FieldType = FIXED | VARIABLE | REPETITIVE | COMPOUND

text \<open>
  The objects that the field decoders of the two catalogues return, one constructor for
  each decoder, the arguments in the order of the object's keys: \<open>sac sic\<close>;
  \<open>typ sim rdp spi rab tst\<close>; \<open>range azimuth rangeNM azimuthDeg\<close>;
  \<open>validated garbled smoothed code codeOctal\<close>;
  \<open>validated garbled flightLevel altitude\<close>; \<open>address addressHex\<close>;
  \<open>callsign raw\<close>; \<open>trackNumber\<close>; \<open>latitude longitude wgs84\<close>;
  \<open>flightLevel altitude\<close>; \<open>raw\<close>.
\<close>

datatype decoded =
    DataSourceIdentifier nat nat
  | TargetReportDescriptor nat nat nat nat nat nat
  | MeasuredPosition real real real real
  | Mode3ACode bool bool bool string nat
  | FlightLevelBinary bool bool real real
  | AircraftAddress nat string
  | AircraftIdentification string buffer
  | TrackNumber nat
  | CalculatedPositionWGS84 real real bool
  | MeasuredFlightLevel real real
  | AircraftDerivedData buffer

text \<open>
  \<open>AsterixFieldDefinition\<close> and \<open>AsterixCategory\<close>. The fields \<open>id\<close>, \<open>name\<close>,
  \<open>type\<close>, \<open>length\<close> and \<open>number\<close>, \<open>fields\<close> carry a prefix here; \<open>subfields\<close> is
  set nowhere in the source and is left out.
\<close>

record AsterixFieldDefinition =
  defId :: nat
  defName :: string
  defType :: FieldType
  defLength :: "nat option"
  decoder :: "buffer \<Rightarrow> error + decoded"

record AsterixCategory =
  catNumber :: nat
  catName :: string
  catFields :: "nat \<rightharpoonup> AsterixFieldDefinition"

text \<open>What the decoder hands to its logger.\<close>

datatype log_entry =
    LogWarn string nat string
  | LogError string error nat string

subsection \<open>Category 048\<close>

definition decodeDataSourceIdentifier :: "buffer \<Rightarrow> error + decoded" where
  "decodeDataSourceIdentifier data =
     bindE (readUInt8 data 0) (\<lambda>a. bindE (readUInt8 data 1) (\<lambda>b.
       Inr (DataSourceIdentifier a b)))"

definition decodeTargetReportDescriptor :: "buffer \<Rightarrow> error + decoded" where
  "decodeTargetReportDescriptor data =
     bindE (readUInt8 data 0) (\<lambda>firstByte.
       Inr (TargetReportDescriptor
              (drop_bit 5 firstByte AND 7)
              (drop_bit 4 firstByte AND 1)
              (drop_bit 3 firstByte AND 1)
              (drop_bit 2 firstByte AND 1)
              (drop_bit 1 firstByte AND 1)
              (firstByte AND 1)))"

definition decodeMeasuredPosition :: "buffer \<Rightarrow> error + decoded" where
  "decodeMeasuredPosition data =
     bindE (readUInt16BE data 0) (\<lambda>r. bindE (readUInt16BE data 2) (\<lambda>t.
       let rho = real r * (1 / 256); theta = real t * (360 / 65536)
       in Inr (MeasuredPosition rho theta rho theta)))"

definition decodeMode3A :: "buffer \<Rightarrow> error + decoded" where
  "decodeMode3A data =
     bindE (readUInt16BE data 0) (\<lambda>raw.
       let v = drop_bit 15 raw AND 1;
           g = drop_bit 14 raw AND 1;
           l = drop_bit 13 raw AND 1;
           c = raw AND 0x0FFF
       in Inr (Mode3ACode (v = 1) (g = 1) (l = 1)
                 (padStart 4 (CHR ''0'') (toStringRadix 8 c)) c))"

definition decodeFlightLevel :: "buffer \<Rightarrow> error + decoded" where
  "decodeFlightLevel data =
     bindE (readInt16BE data 0) (\<lambda>raw.
       let v = drop_bit 15 raw AND 1;
           g = drop_bit 14 raw AND 1;
           flightLevel = real_of_int (raw AND 0x3FFF) * 0.25
       in Inr (FlightLevelBinary (v = 1) (g = 1) flightLevel (flightLevel * 100)))"

definition decodeAircraftAddress :: "buffer \<Rightarrow> error + decoded" where
  "decodeAircraftAddress data =
     bindE (readUInt8 data 0) (\<lambda>b0. bindE (readUInt8 data 1) (\<lambda>b1.
     bindE (readUInt8 data 2) (\<lambda>b2.
       let a = push_bit 16 b0 OR push_bit 8 b1 OR b2
       in Inr (AircraftAddress a
                 (padStart 6 (CHR ''0'') (toUpperCase (toStringRadix 16 a)))))))"

text \<open>
  One round of the loop over the eight six-bit characters of a callsign.
  \<open>String.fromCharCode(char6bit + 64)\<close> for 1 to 26 is the letter of that rank, and
  \<open>String.fromCharCode(char6bit)\<close> for 48 to 57 is the digit.
\<close>

definition sixBitChar :: "buffer \<Rightarrow> nat \<Rightarrow> string" where
  "sixBitChar data i =
     (let byteIndex = (i * 6) div 8; bitOffset = (i * 6) mod 8 in
      if byteIndex < length data then
        (let char6bit =
           (if bitOffset \<le> 2
            then drop_bit (2 - bitOffset) (unat (data ! byteIndex)) AND 0x3F
            else
              (let highBits = push_bit (bitOffset - 2)
                     (unat (data ! byteIndex) AND (push_bit (8 - bitOffset) 1 - 1));
                   lowBits = (if byteIndex + 1 < length data
                     then drop_bit (10 - bitOffset) (unat (data ! (byteIndex + 1)))
                          AND (push_bit (bitOffset - 2) 1 - 1)
                     else 0)
               in highBits OR lowBits))
         in if 1 \<le> char6bit \<and> char6bit \<le> 26
            then [''ABCDEFGHIJKLMNOPQRSTUVWXYZ'' ! (char6bit - 1)]
            else if 48 \<le> char6bit \<and> char6bit \<le> 57 then [''0123456789'' ! (char6bit - 48)]
            else if char6bit = 32 then [CHR '' '']
            else [])
      else [])"

definition decodeAircraftIdentification :: "buffer \<Rightarrow> error + decoded" where
  "decodeAircraftIdentification data =
     Inr (AircraftIdentification (trim (concat (map (sixBitChar data) [0..<8]))) data)"

definition cat048 :: AsterixCategory where
  "cat048 = \<lparr> catNumber = 48, catName = ''Monoradar Target Reports'',
     catFields = [
       0x010 \<mapsto> \<lparr> defId = 0x010, defName = ''Data Source Identifier'', defType = FIXED,
                   defLength = Some 2, decoder = decodeDataSourceIdentifier \<rparr>,
       0x020 \<mapsto> \<lparr> defId = 0x020, defName = ''Target Report Descriptor'', defType = VARIABLE,
                   defLength = None, decoder = decodeTargetReportDescriptor \<rparr>,
       0x040 \<mapsto> \<lparr> defId = 0x040, defName = ''Measured Position in Polar Coordinates'',
                   defType = FIXED, defLength = Some 4, decoder = decodeMeasuredPosition \<rparr>,
       0x070 \<mapsto> \<lparr> defId = 0x070, defName = ''Mode-3/A Code in Octal Representation'',
                   defType = FIXED, defLength = Some 2, decoder = decodeMode3A \<rparr>,
       0x090 \<mapsto> \<lparr> defId = 0x090, defName = ''Flight Level in Binary Representation'',
                   defType = FIXED, defLength = Some 2, decoder = decodeFlightLevel \<rparr>,
       0x220 \<mapsto> \<lparr> defId = 0x220, defName = ''Aircraft Address'', defType = FIXED,
                   defLength = Some 3, decoder = decodeAircraftAddress \<rparr>,
       0x240 \<mapsto> \<lparr> defId = 0x240, defName = ''Aircraft Identification'', defType = FIXED,
                   defLength = Some 6, decoder = decodeAircraftIdentification \<rparr> ] \<rparr>"

subsection \<open>Category 062\<close>

definition decodeTrackNumber :: "buffer \<Rightarrow> error + decoded" where
  "decodeTrackNumber data = bindE (readUInt16BE data 0) (\<lambda>n. Inr (TrackNumber n))"

definition decodeCalculatedPosition :: "buffer \<Rightarrow> error + decoded" where
  "decodeCalculatedPosition data =
     bindE (readInt32BE data 0) (\<lambda>a. bindE (readInt32BE data 4) (\<lambda>b.
       Inr (CalculatedPositionWGS84 (real_of_int a * (180 / 2 ^ 25))
              (real_of_int b * (180 / 2 ^ 25)) True)))"

definition decodeMeasuredFlightLevel :: "buffer \<Rightarrow> error + decoded" where
  "decodeMeasuredFlightLevel data =
     bindE (readInt16BE data 0) (\<lambda>raw.
       let flightLevel = real_of_int raw * 0.25
       in Inr (MeasuredFlightLevel flightLevel (flightLevel * 100)))"

definition decodeAircraftDerivedData :: "buffer \<Rightarrow> error + decoded" where
  "decodeAircraftDerivedData data = Inr (AircraftDerivedData data)"

definition cat062 :: AsterixCategory where
  "cat062 = \<lparr> catNumber = 62, catName = ''System Track Data'',
     catFields = [
       0x010 \<mapsto> \<lparr> defId = 0x010, defName = ''Data Source Identifier'', defType = FIXED,
                   defLength = Some 2, decoder = decodeDataSourceIdentifier \<rparr>,
       0x040 \<mapsto> \<lparr> defId = 0x040, defName = ''Track Number'', defType = FIXED,
                   defLength = Some 2, decoder = decodeTrackNumber \<rparr>,
       0x105 \<mapsto> \<lparr> defId = 0x105, defName = ''Calculated Position in WGS-84 Coordinates'',
                   defType = FIXED, defLength = Some 8, decoder = decodeCalculatedPosition \<rparr>,
       0x136 \<mapsto> \<lparr> defId = 0x136, defName = ''Measured Flight Level'', defType = FIXED,
                   defLength = Some 2, decoder = decodeMeasuredFlightLevel \<rparr>,
       0x380 \<mapsto> \<lparr> defId = 0x380, defName = ''Aircraft Derived Data'', defType = COMPOUND,
                   defLength = None, decoder = decodeAircraftDerivedData \<rparr> ] \<rparr>"

definition categories :: "nat \<rightharpoonup> AsterixCategory" where
  "categories = [48 \<mapsto> cat048, 62 \<mapsto> cat062]"

subsection \<open>Reading the field specification\<close>

text \<open>
  The table of \<open>mapFieldIndexToId\<close>. Its last two entries are written \<open>0x SP\<close> and
  \<open>0x RE\<close> in the source, which is no number: their values are the parameters \<open>sp\<close>
  and \<open>re\<close>. \<open>fieldMap[index] || null\<close> is \<open>null\<close> for a missing index and for an
  entry that is zero.
\<close>

definition fieldMap :: "nat \<Rightarrow> nat \<Rightarrow> (nat \<times> nat) list" where
  "fieldMap sp re =
     [(1, 0x010), (2, 0x020), (3, 0x040), (4, 0x070), (5, 0x090), (6, 0x130), (7, 0x220),
      (8, 0x240), (9, 0x250), (10, 0x161), (11, 0x042), (12, 0x200), (13, 0x170),
      (14, 0x210), (15, 0x030), (16, 0x080), (17, 0x100), (18, 0x110), (19, 0x120),
      (20, 0x230), (21, 0x260), (22, 0x055), (23, 0x050), (24, 0x065), (25, 0x060),
      (26, sp), (27, re)]"

definition mapFieldIndexToId :: "nat \<Rightarrow> nat \<Rightarrow> nat \<Rightarrow> nat option" where
  "mapFieldIndexToId sp re index =
     (case map_of (fieldMap sp re) index of
        None \<Rightarrow> None
      | Some v \<Rightarrow> if v = 0 then None else Some v)"

text \<open>
  The inner loop of \<open>readFSPEC\<close>, \<open>for (let bit = 7; bit >= 1; bit--)\<close>, with the
  running \<open>fieldIndex\<close> and \<open>presentFields\<close>; the first argument after the octet is
  \<open>bit\<close>.
\<close>

fun fspecBits :: "nat \<Rightarrow> nat \<Rightarrow> nat \<Rightarrow> nat \<Rightarrow> nat \<Rightarrow> nat list \<Rightarrow> nat \<times> nat list" where
  "fspecBits sp re fspecByte 0 fieldIndex presentFields = (fieldIndex, presentFields)"
| "fspecBits sp re fspecByte (Suc b) fieldIndex presentFields =
     fspecBits sp re fspecByte b (fieldIndex + 1)
       (if fspecByte AND push_bit (Suc b - 1) 1 \<noteq> 0
        then (case mapFieldIndexToId sp re fieldIndex of
                Some fieldId \<Rightarrow> presentFields @ [fieldId]
              | None \<Rightarrow> presentFields)
        else presentFields)"

text \<open>The \<open>do ... while\<close> loop of \<open>readFSPEC\<close>; the result is \<open>(presentFields, length)\<close>.\<close>

function readFSPECLoop ::
  "nat \<Rightarrow> nat \<Rightarrow> buffer \<Rightarrow> int \<Rightarrow> int \<Rightarrow> nat \<Rightarrow> nat list \<Rightarrow> error + (nat list \<times> int)" where
  "readFSPECLoop sp re data offset fspecLength fieldIndex presentFields =
     (if offset + fspecLength \<ge> int (length data) then Inl IncompleteFSPEC
      else bindE (readUInt8 data (offset + fspecLength)) (\<lambda>fspecByte.
        let fspecLength' = fspecLength + 1;
            r = fspecBits sp re fspecByte 7 fieldIndex presentFields
        in bindE (readUInt8 data (offset + fspecLength' - 1)) (\<lambda>lastByte.
             if lastByte AND 0x01 = 1
             then readFSPECLoop sp re data offset fspecLength' (fst r) (snd r)
             else Inr (snd r, fspecLength'))))"
  by pat_completeness auto
termination
  by (relation "measure (\<lambda>(sp, re, data, offset, fspecLength, fieldIndex, presentFields).
                  nat (int (length data) - (offset + fspecLength)))") auto

declare readFSPECLoop.simps [simp del]

definition readFSPEC :: "nat \<Rightarrow> nat \<Rightarrow> buffer \<Rightarrow> int \<Rightarrow> error + (nat list \<times> int)" where
  "readFSPEC sp re data offset = readFSPECLoop sp re data offset 0 1 []"

subsection \<open>Field lengths\<close>

text \<open>The loop of the \<open>VARIABLE\<close> case; \<open>break\<close> leaves it with the length so far.\<close>

function variableLengthLoop :: "buffer \<Rightarrow> int \<Rightarrow> int \<Rightarrow> int \<Rightarrow> error + int" where
  "variableLengthLoop data offset len byteIndex =
     (if offset + byteIndex \<ge> int (length data) then Inr len
      else bindE (readUInt8 data (offset + (byteIndex + 1) - 1)) (\<lambda>b.
             if b AND 0x01 = 1 then variableLengthLoop data offset (len + 1) (byteIndex + 1)
             else Inr (len + 1)))"
  by pat_completeness auto
termination
  by (relation "measure (\<lambda>(data, offset, len, byteIndex).
                  nat (int (length data) - (offset + byteIndex)))") auto

declare variableLengthLoop.simps [simp del]

function compoundFspecLoop :: "buffer \<Rightarrow> int \<Rightarrow> int \<Rightarrow> error + int" where
  "compoundFspecLoop data offset fspecLength =
     (if offset + fspecLength \<ge> int (length data) then Inr fspecLength
      else bindE (readUInt8 data (offset + (fspecLength + 1) - 1)) (\<lambda>b.
             if b AND 0x01 = 1 then compoundFspecLoop data offset (fspecLength + 1)
             else Inr (fspecLength + 1)))"
  by pat_completeness auto
termination
  by (relation "measure (\<lambda>(data, offset, fspecLength).
                  nat (int (length data) - (offset + fspecLength)))") auto

declare compoundFspecLoop.simps [simp del]

definition getCompoundFieldLength :: "buffer \<Rightarrow> int \<Rightarrow> error + int" where
  "getCompoundFieldLength data offset =
     bindE (compoundFspecLoop data offset 0) (\<lambda>fspecLength.
       Inr (min (int (length data) - offset) (0 + fspecLength + 10)))"

definition getFieldLength :: "AsterixFieldDefinition \<Rightarrow> buffer \<Rightarrow> int \<Rightarrow> error + int" where
  "getFieldLength fieldDef data offset =
     (case defType fieldDef of
        FIXED \<Rightarrow> Inr (case defLength fieldDef of None \<Rightarrow> 0 | Some l \<Rightarrow> int l)
      | VARIABLE \<Rightarrow>
          if offset \<ge> int (length data) then Inr 0 else variableLengthLoop data offset 0 0
      | REPETITIVE \<Rightarrow>
          if offset \<ge> int (length data) then Inr 0
          else bindE (readUInt8 data offset) (\<lambda>repetitions.
            let itemLength = (case defLength fieldDef of
                                None \<Rightarrow> 1 | Some l \<Rightarrow> if l = 0 then 1 else l)
            in Inr (1 + int (repetitions * itemLength)))
      | COMPOUND \<Rightarrow> getCompoundFieldLength data offset)"

subsection \<open>Decoding a record\<close>

text \<open>
  The variables of \<open>decodeDataRecord\<close> that its loop changes: the read offset,
  \<open>result.fields\<close> (an object: assigning a key that exists replaces its value in place,
  a new key goes to the end) and what was handed to the logger.
\<close>

record decode_state =
  offset :: int
  resultFields :: "(string \<times> decoded) list"
  logged :: "log_entry list"

fun objectSet :: "(string \<times> 'v) list \<Rightarrow> string \<Rightarrow> 'v \<Rightarrow> (string \<times> 'v) list" where
  "objectSet [] k v = [(k, v)]"
| "objectSet ((k', v') # kvs) k v =
     (if k' = k then (k, v) # kvs else (k', v') # objectSet kvs k v)"

text \<open>
  The body of the \<open>try\<close> block for one field: the decoded value and the field's length,
  or what was thrown.
\<close>

definition tryField ::
  "AsterixFieldDefinition \<Rightarrow> buffer \<Rightarrow> int \<Rightarrow> nat \<Rightarrow> error + (decoded \<times> int)" where
  "tryField fieldDef data off fieldId =
     bindE (getFieldLength fieldDef data off) (\<lambda>fieldLength.
       if off + fieldLength > int (length data) then Inl (InsufficientData fieldId)
       else bindE (decoder fieldDef (subarray data off (off + fieldLength))) (\<lambda>decodedField.
              Inr (decodedField, fieldLength)))"

text \<open>One round of \<open>for (const fieldId of fspec.presentFields)\<close>.\<close>

definition decodeField ::
  "AsterixCategory \<Rightarrow> buffer \<Rightarrow> decode_state \<Rightarrow> nat \<Rightarrow> decode_state" where
  "decodeField category data st fieldId =
     (case catFields category fieldId of
        None \<Rightarrow>
          st\<lparr>logged := logged st @
            [LogWarn ''Unknown field in ASTERIX message'' (catNumber category)
               (toStringRadix 16 fieldId)]\<rparr>
      | Some fieldDef \<Rightarrow>
          (case tryField fieldDef data (offset st) fieldId of
             Inr (decodedField, fieldLength) \<Rightarrow>
               st\<lparr>resultFields := objectSet (resultFields st) (defName fieldDef) decodedField,
                  offset := offset st + fieldLength\<rparr>
           | Inl err \<Rightarrow>
               st\<lparr>logged := logged st @
                    [LogError ''Field decoding failed'' err (catNumber category)
                       (toStringRadix 16 fieldId)],
                  offset := offset st + 1\<rparr>))"

definition decodeFields ::
  "AsterixCategory \<Rightarrow> buffer \<Rightarrow> decode_state \<Rightarrow> nat list \<Rightarrow> decode_state" where
  "decodeFields category data st fieldIds = foldl (decodeField category data) st fieldIds"

text \<open>
  \<open>decodeDataRecord\<close> returns \<open>{category, fields}\<close>; the state it ends in holds the
  \<open>fields\<close>, and the log and the final offset besides.
\<close>

definition decodeDataRecord ::
  "nat \<Rightarrow> nat \<Rightarrow> AsterixCategory \<Rightarrow> buffer \<Rightarrow> error + (nat \<times> decode_state)" where
  "decodeDataRecord sp re category data =
     bindE (readFSPEC sp re data 0) (\<lambda>fspec.
       Inr (catNumber category,
            decodeFields category data
              \<lparr>offset = 0 + snd fspec, resultFields = [], logged = []\<rparr> (fst fspec)))"

text \<open>
  \<open>decodeMessage\<close>: the value returned or the error thrown, and the entry it logs itself
  before it throws again what \<open>decodeDataRecord\<close> threw.
\<close>

definition decodeMessage ::
  "nat \<Rightarrow> nat \<Rightarrow> nat \<Rightarrow> buffer \<Rightarrow> (error + (nat \<times> decode_state)) \<times> log_entry list" where
  "decodeMessage sp re category data =
     (case categories category of
        None \<Rightarrow> (Inl (UnsupportedCategory category), [])
      | Some categoryDef \<Rightarrow>
          (case decodeDataRecord sp re categoryDef data of
             Inr r \<Rightarrow> (Inr r, [])
           | Inl err \<Rightarrow> (Inl err, [LogError ''ASTERIX decoding failed'' err category []])))"

section \<open>The shared types (types/index.ts)\<close>

text \<open>
  The components of a \<open>Vector3D\<close> are \<open>x\<close>, \<open>y\<close>, \<open>z\<close> in the source; they are
  \<open>vx\<close>, \<open>vy\<close>, \<open>vz\<close> here, so that the letters stay free for variables. A field
  name that two interfaces share keeps its name in the first record and carries a prefix
  in the others. An optional field has an \<open>option\<close> type.
\<close>

record Position3D =
  latitude :: real
  longitude :: real
  altitude :: real
  timestamp :: date

record Vector3D =
  vx :: real
  vy :: real
  vz :: real

datatype AircraftStatus = DEPARTING | ARRIVING | TAXIING | HOLDING | EMERGENCY | UNKNOWN

datatype ConflictType =
  SEPARATION_VIOLATION | RUNWAY_INCURSION | ALTITUDE_CONFLICT | GROUND_CONFLICT

datatype SeverityLevel = LOW | MEDIUM | HIGH | CRITICAL

datatype ConflictStatus = DETECTED | ACKNOWLEDGED | RESOLVING | RESOLVED

record FlightPlan =
  origin :: string
  destination :: string
  route :: string
  cruiseAltitude :: real
  estimatedDeparture :: date
  estimatedArrival :: date

record Clearance =
  clearanceId :: string
  clearanceType :: string
  instruction :: string
  clearanceAltitude :: "real option"
  clearanceHeading :: "real option"
  clearanceSpeed :: "real option"
  clearanceTimestamp :: date
  acknowledged :: bool

record Aircraft =
  callsign :: string
  flightPlan :: FlightPlan
  currentPosition :: Position3D
  velocity :: Vector3D
  acAltitude :: real
  heading :: real
  squawkCode :: string
  status :: AircraftStatus
  clearances :: "Clearance list"
  lastUpdate :: date

record ResolutionOption =
  optionId :: string
  description :: string
  instructions :: "string list"
  estimatedResolutionTime :: real
  optionConfidence :: real

record Conflict =
  conflictId :: string
  aircraftInvolved :: "Aircraft list"
  conflictType :: ConflictType
  timeToConflict :: real
  severity :: SeverityLevel
  resolutionOptions :: "ResolutionOption list"
  conflictStatus :: ConflictStatus
  detectedAt :: date

subsection \<open>Maps and the library functions of JavaScript\<close>

text \<open>
  A \<open>Map\<close> is the list of its entries in insertion order: \<open>set\<close> replaces the value of
  a key that is there and appends a new key, \<open>delete\<close> removes the key, \<open>get\<close> is
  \<^const>\<open>map_of\<close> and \<open>values()\<close> lists the values in order.
\<close>

fun mapSet :: "('k \<times> 'v) list \<Rightarrow> 'k \<Rightarrow> 'v \<Rightarrow> ('k \<times> 'v) list" where
  "mapSet [] k v = [(k, v)]"
| "mapSet ((k', v') # kvs) k v =
     (if k' = k then (k, v) # kvs else (k', v') # mapSet kvs k v)"

definition mapDelete :: "('k \<times> 'v) list \<Rightarrow> 'k \<Rightarrow> ('k \<times> 'v) list" where
  "mapDelete m k = filter (\<lambda>kv. fst kv \<noteq> k) m"

definition mapValues :: "('k \<times> 'v) list \<Rightarrow> 'v list" where
  "mapValues m = map snd m"

text \<open>
  \<open>Math.atan2(y, x)\<close> on the reals: the angle of the point \<open>(x, y)\<close>, in the interval
  from \<open>-\<pi>\<close> (excluded) to \<open>\<pi>\<close>, and 0 at the origin.
\<close>

definition atan2 :: "real \<Rightarrow> real \<Rightarrow> real" where
  "atan2 y x =
     (if 0 < x then arctan (y / x)
      else if x < 0 \<and> 0 \<le> y then arctan (y / x) + pi
      else if x < 0 \<and> y < 0 then arctan (y / x) - pi
      else if 0 < y then pi / 2
      else if y < 0 then - (pi / 2)
      else 0)"

section \<open>The track store (RadarDataProcessor.ts)\<close>

record TrackQuality =
  confidence :: real
  positionAccuracy :: real
  velocityAccuracy :: real
  ageSeconds :: real
  sourceReliability :: real

record RadarTrack =
  trackNumber :: nat
  trackCallsign :: "string option"
  position :: Position3D
  trackVelocity :: Vector3D
  trackHeading :: real
  trackSquawkCode :: "string option"
  mode3A :: "string option"
  flightLevel :: "real option"
  groundSpeed :: "real option"
  trackLastUpdate :: date
  trackQuality :: TrackQuality

text \<open>\<open>Partial<RadarTrack>\<close>: each key is there or not.\<close>

record PartialRadarTrack =
  newTrackNumber :: "nat option"
  newCallsign :: "string option"
  newPosition :: "Position3D option"
  newVelocity :: "Vector3D option"
  newHeading :: "real option"
  newSquawkCode :: "string option"
  newMode3A :: "string option"
  newFlightLevel :: "real option"
  newGroundSpeed :: "real option"
  newLastUpdate :: "date option"
  newTrackQuality :: "TrackQuality option"

record RadarState =
  isProcessing :: bool
  radarTracks :: "(nat \<times> RadarTrack) list"
  aircraftMap :: "(string \<times> Aircraft) list"

definition calculateVelocity :: "Position3D \<Rightarrow> Position3D \<Rightarrow> date \<Rightarrow> date \<Rightarrow> Vector3D" where
  "calculateVelocity pos1 pos2 time1 time2 =
     (let deltaTime = real_of_int (time2 - time1) / 1000 in
      if deltaTime \<le> 0 then \<lparr>vx = 0, vy = 0, vz = 0\<rparr>
      else
        (let deltaLat = (latitude pos2 - latitude pos1) * 111320;
             deltaLon = (longitude pos2 - longitude pos1) * 111320
                        * cos (latitude pos1 * pi / 180);
             deltaAlt = altitude pos2 - altitude pos1
         in \<lparr>vx = deltaLon / deltaTime, vy = deltaLat / deltaTime, vz = deltaAlt / deltaTime\<rparr>))"

definition calculateHeading :: "Vector3D \<Rightarrow> real" where
  "calculateHeading v =
     (let h = atan2 (vx v) (vy v) * 180 / pi in if h < 0 then h + 360 else h)"

definition calculateGroundSpeed :: "Vector3D \<Rightarrow> real" where
  "calculateGroundSpeed v = sqrt (vx v * vx v + vy v * vy v)"

definition calculateTrackQuality :: "RadarTrack \<Rightarrow> PartialRadarTrack \<Rightarrow> date \<Rightarrow> TrackQuality" where
  "calculateTrackQuality existing update now =
     (let age = real_of_int (now - trackLastUpdate existing) / 1000 in
      \<lparr>confidence = max 0.1 (confidence (trackQuality existing) - age * 0.01),
       positionAccuracy = positionAccuracy (trackQuality existing),
       velocityAccuracy = velocityAccuracy (trackQuality existing),
       ageSeconds = age,
       sourceReliability = sourceReliability (trackQuality existing)\<rparr>)"

text \<open>
  The object spread \<open>{...existingTrack, ...trackData, lastUpdate, trackQuality}\<close>: a key
  of \<open>trackData\<close> that is there replaces the one of the existing track.
\<close>

definition orElse :: "'a option \<Rightarrow> 'a \<Rightarrow> 'a" where
  "orElse v d = (case v of Some a \<Rightarrow> a | None \<Rightarrow> d)"

definition orKeep :: "'a option \<Rightarrow> 'a option \<Rightarrow> 'a option" where
  "orKeep v old = (case v of Some a \<Rightarrow> Some a | None \<Rightarrow> old)"

definition spreadTrack ::
  "RadarTrack \<Rightarrow> PartialRadarTrack \<Rightarrow> date \<Rightarrow> TrackQuality \<Rightarrow> RadarTrack" where
  "spreadTrack existingTrack trackData newUpdate quality =
     \<lparr>trackNumber = orElse (newTrackNumber trackData) (trackNumber existingTrack),
      trackCallsign = orKeep (newCallsign trackData) (trackCallsign existingTrack),
      position = orElse (newPosition trackData) (position existingTrack),
      trackVelocity = orElse (newVelocity trackData) (trackVelocity existingTrack),
      trackHeading = orElse (newHeading trackData) (trackHeading existingTrack),
      trackSquawkCode = orKeep (newSquawkCode trackData) (trackSquawkCode existingTrack),
      mode3A = orKeep (newMode3A trackData) (mode3A existingTrack),
      flightLevel = orKeep (newFlightLevel trackData) (flightLevel existingTrack),
      groundSpeed = orKeep (newGroundSpeed trackData) (groundSpeed existingTrack),
      trackLastUpdate = newUpdate,
      trackQuality = quality\<rparr>"

definition updateRadarTrack :: "RadarState \<Rightarrow> PartialRadarTrack \<Rightarrow> date \<Rightarrow> RadarState" where
  "updateRadarTrack st trackData now =
     (case newTrackNumber trackData of
        None \<Rightarrow> st
      | Some n \<Rightarrow>
          if n = 0 then st
          else
            (case map_of (radarTracks st) n of
               Some existingTrack \<Rightarrow>
                 (let updatedTrack = spreadTrack existingTrack trackData now
                        (calculateTrackQuality existingTrack trackData now);
                      updatedTrack' =
                        (case newPosition trackData of
                           Some p \<Rightarrow>
                             (let v = calculateVelocity (position existingTrack) p
                                        (trackLastUpdate existingTrack) now
                              in updatedTrack\<lparr>trackVelocity := v,
                                   trackHeading := calculateHeading v,
                                   groundSpeed := Some (calculateGroundSpeed v)\<rparr>)
                         | None \<Rightarrow> updatedTrack)
                  in st\<lparr>radarTracks := mapSet (radarTracks st) n updatedTrack'\<rparr>)
             | None \<Rightarrow>
                 (let newTrack =
                    \<lparr>trackNumber = n,
                     trackCallsign = newCallsign trackData,
                     position = orElse (newPosition trackData)
                       \<lparr>latitude = 0, longitude = 0, altitude = 0, timestamp = now\<rparr>,
                     trackVelocity = \<lparr>vx = 0, vy = 0, vz = 0\<rparr>,
                     trackHeading = 0,
                     trackSquawkCode = newSquawkCode trackData,
                     mode3A = None,
                     flightLevel = newFlightLevel trackData,
                     groundSpeed = None,
                     trackLastUpdate = now,
                     trackQuality = \<lparr>confidence = 0.8, positionAccuracy = 100,
                       velocityAccuracy = 5, ageSeconds = 0, sourceReliability = 0.9\<rparr>\<rparr>
                  in st\<lparr>radarTracks := mapSet (radarTracks st) n newTrack\<rparr>)))"










subsection \<open>Example tracks\<close>

text \<open>The inputs of the worked examples about the track store.\<close>

definition sampleUpdate :: PartialRadarTrack where
  "sampleUpdate =
     \<lparr>newTrackNumber = Some 7, newCallsign = Some ''UAL123'',
      newPosition = Some \<lparr>latitude = 40, longitude = -74, altitude = 5000, timestamp = 0\<rparr>,
      newVelocity = None, newHeading = None, newSquawkCode = Some ''1200'', newMode3A = None,
      newFlightLevel = Some 5000, newGroundSpeed = None, newLastUpdate = None,
      newTrackQuality = None\<rparr>"


definition movingTrack :: RadarTrack where
  "movingTrack =
     \<lparr>trackNumber = 7, trackCallsign = Some ''UAL123'',
      position = \<lparr>latitude = 40, longitude = -75, altitude = 5000, timestamp = 0\<rparr>,
      trackVelocity = \<lparr>vx = 100, vy = 0, vz = 0\<rparr>, trackHeading = 90,
      trackSquawkCode = Some ''1200'', mode3A = None, flightLevel = Some 5000,
      groundSpeed = Some 100, trackLastUpdate = 1000,
      trackQuality = \<lparr>confidence = 0.8, positionAccuracy = 100, velocityAccuracy = 5,
                       ageSeconds = 0, sourceReliability = 0.9\<rparr>\<rparr>"

definition movingState :: RadarState where
  "movingState = \<lparr>isProcessing = True, radarTracks = [(7, movingTrack)], aircraftMap = []\<rparr>"




section \<open>Conflict detection (ConflictDetectionService)\<close>

record AlertThresholds =
  caution :: real
  warning :: real
  critical :: real

record ConflictParameters =
  horizontalSeparation :: real
  verticalSeparation :: real
  timeHorizon :: real
  alertThresholds :: AlertThresholds

record TrajectoryPrediction =
  predictedFor :: Aircraft
  predictedPositions :: "Position3D list"
  timeStamps :: "date list"
  predictionConfidence :: real
  uncertaintyRadius :: real

text \<open>
  The fields of the service that the detection cycle reads and writes. The subscribers,
  the logger and the event emitter are left out: a cycle only hands them its results.
\<close>

record DetectionState =
  separationStandards :: ConflictParameters
  activeConflicts :: "(string \<times> Conflict) list"
  conflictHistory :: "Conflict list"
  trajectoryCache :: "(string \<times> TrajectoryPrediction) list"

definition defaultSeparationStandards :: ConflictParameters where
  "defaultSeparationStandards =
     \<lparr>horizontalSeparation = 3.0, verticalSeparation = 1000, timeHorizon = 300,
      alertThresholds = \<lparr>caution = 180, warning = 120, critical = 60\<rparr>\<rparr>"

definition initialDetectionState :: DetectionState where
  "initialDetectionState =
     \<lparr>separationStandards = defaultSeparationStandards, activeConflicts = [],
      conflictHistory = [], trajectoryCache = []\<rparr>"

definition filterActiveAircraft :: "Aircraft list \<Rightarrow> date \<Rightarrow> Aircraft list" where
  "filterActiveAircraft aircraft now =
     (let staleThreshold = 30000 in
      filter (\<lambda>ac. (let age = now - lastUpdate ac in age < staleThreshold \<and> acAltitude ac > 0))
        aircraft)"

subsection \<open>Trajectory prediction\<close>

text \<open>
  The values of \<open>t\<close> in \<open>for (let t = 0; t <= maxTime; t += timeStep)\<close>, from the
  current one on.
\<close>

function timeSteps :: "int \<Rightarrow> int \<Rightarrow> real \<Rightarrow> int list" where
  "timeSteps timeStep t maxTime =
     (if 0 < timeStep \<and> real_of_int t \<le> maxTime
      then t # timeSteps timeStep (t + timeStep) maxTime else [])"
  by pat_completeness auto
termination
  by (relation "measure (\<lambda>(timeStep, t, maxTime). nat (\<lfloor>maxTime\<rfloor> - t + 1))")
     (auto simp: le_floor_iff)

declare timeSteps.simps [simp del]

definition calculateTrajectoryConfidence :: "Aircraft \<Rightarrow> date \<Rightarrow> real" where
  "calculateTrajectoryConfidence ac now =
     (let dataAge = real_of_int (now - lastUpdate ac) / 1000;
          ageConfidence = max 0.1 (1 - dataAge / 30);
          statusConfidence = (if status ac = UNKNOWN then 0.5 else 0.9)
      in ageConfidence * statusConfidence)"

definition calculateUncertaintyRadius :: "Aircraft \<Rightarrow> date \<Rightarrow> real" where
  "calculateUncertaintyRadius ac now =
     (let baseUncertainty = 0.5;
          dataAge = real_of_int (now - lastUpdate ac) / 1000
      in baseUncertainty + (dataAge / 60) * 0.1)"

text \<open>
  The position predicted for the offset \<open>t\<close>, in seconds. At a pole the divisor of the
  longitude is zero: JavaScript yields an infinity or NaN there, HOL the value of
  \<open>x / 0\<close>, and nothing below depends on it.
\<close>

definition predictedPosition :: "Aircraft \<Rightarrow> int \<Rightarrow> Position3D" where
  "predictedPosition ac t =
     (let currentPosition = currentPosition ac; currentVelocity = velocity ac in
      \<lparr>latitude = latitude currentPosition + (vy currentVelocity * real_of_int t) / 111320,
       longitude = longitude currentPosition + (vx currentVelocity * real_of_int t)
                     / (111320 * cos (latitude currentPosition * pi / 180)),
       altitude = altitude currentPosition + (vz currentVelocity * real_of_int t * 3.28084),
       timestamp = lastUpdate ac + t * 1000\<rparr>)"

definition predictTrajectory :: "ConflictParameters \<Rightarrow> Aircraft \<Rightarrow> date \<Rightarrow> TrajectoryPrediction" where
  "predictTrajectory standards ac now =
     (let ts = timeSteps 10 0 (timeHorizon standards) in
      \<lparr>predictedFor = ac,
       predictedPositions = map (predictedPosition ac) ts,
       timeStamps = map (\<lambda>t. lastUpdate ac + t * 1000) ts,
       predictionConfidence = calculateTrajectoryConfidence ac now,
       uncertaintyRadius = calculateUncertaintyRadius ac now\<rparr>)"

text \<open>
  \<open>isTrajectoryValid\<close> reads \<open>timeStamps[0].getTime()\<close>, which throws a \<open>TypeError\<close>
  when the list is empty. It does not look at its second argument.
\<close>

definition isTrajectoryValid :: "TrajectoryPrediction \<Rightarrow> Aircraft \<Rightarrow> date \<Rightarrow> error + bool" where
  "isTrajectoryValid trajectory ac now =
     (case timeStamps trajectory of
        [] \<Rightarrow> Inl TypeError
      | t0 # _ \<Rightarrow> (let age = now - t0 in Inr (age < 30000)))"

text \<open>
  The loop of \<open>generateTrajectoryPredictions\<close>: what was thrown, if anything, the map
  \<open>predictions\<close> and the cache; a throw ends the loop and keeps what was written.
\<close>

type_synonym prediction_loop =
  "error option \<times> (string \<times> TrajectoryPrediction) list \<times> (string \<times> TrajectoryPrediction) list"

definition predictOne ::
  "ConflictParameters \<Rightarrow> date \<Rightarrow> prediction_loop \<Rightarrow> Aircraft \<Rightarrow> prediction_loop" where
  "predictOne standards now acc ac =
     (case acc of (thrown, predictions, cache) \<Rightarrow>
        if thrown \<noteq> None then acc
        else
          (let fresh = (let prediction = predictTrajectory standards ac now in
                        (None, mapSet predictions (callsign ac) prediction,
                         mapSet cache (callsign ac) prediction))
           in case map_of cache (callsign ac) of
                None \<Rightarrow> fresh
              | Some cached \<Rightarrow>
                  (case isTrajectoryValid cached ac now of
                     Inl e \<Rightarrow> (Some e, predictions, cache)
                   | Inr True \<Rightarrow> (None, mapSet predictions (callsign ac) cached, cache)
                   | Inr False \<Rightarrow> fresh)))"

definition generateTrajectoryPredictions ::
  "ConflictParameters \<Rightarrow> (string \<times> TrajectoryPrediction) list \<Rightarrow> Aircraft list \<Rightarrow> date
     \<Rightarrow> prediction_loop" where
  "generateTrajectoryPredictions standards cache aircraft now =
     foldl (predictOne standards now) (None, [], cache) aircraft"

subsection \<open>One pair of aircraft\<close>

definition calculateHorizontalDistance :: "Position3D \<Rightarrow> Position3D \<Rightarrow> real" where
  "calculateHorizontalDistance pos1 pos2 =
     (let R = 3440.065;
          dLat = (latitude pos2 - latitude pos1) * pi / 180;
          dLon = (longitude pos2 - longitude pos1) * pi / 180;
          a = sin (dLat / 2) * sin (dLat / 2)
              + cos (latitude pos1 * pi / 180) * cos (latitude pos2 * pi / 180)
                * sin (dLon / 2) * sin (dLon / 2);
          c = 2 * atan2 (sqrt a) (sqrt (1 - a))
      in R * c)"

definition totalSeparation :: "Position3D \<Rightarrow> Position3D \<Rightarrow> real" where
  "totalSeparation pos1 pos2 =
     (let horizontalSep = calculateHorizontalDistance pos1 pos2;
          verticalSep = \<bar>altitude pos1 - altitude pos2\<bar>
      in sqrt (horizontalSep ^ 2 + (verticalSep / 6076.12) ^ 2))"

definition determineConflictType ::
  "Aircraft \<Rightarrow> Aircraft \<Rightarrow> Position3D \<Rightarrow> Position3D \<Rightarrow> ConflictType" where
  "determineConflictType aircraft1 aircraft2 pos1 pos2 =
     (let altitudeDiff = \<bar>altitude pos1 - altitude pos2\<bar> in
      if altitudeDiff < 500 then SEPARATION_VIOLATION
      else if altitude pos1 < 1000 \<or> altitude pos2 < 1000 then GROUND_CONFLICT
      else ALTITUDE_CONFLICT)"

text \<open>The second parameter of \<open>calculateSeverity\<close> is \<open>timeToConflict\<close> in the source.\<close>

definition calculateSeverity :: "real \<Rightarrow> real \<Rightarrow> SeverityLevel" where
  "calculateSeverity separation secondsToConflict =
     (if separation < 1.0 \<and> secondsToConflict < 60 then CRITICAL
      else if separation < 2.0 \<and> secondsToConflict < 120 then HIGH
      else if separation < 3.0 \<and> secondsToConflict < 180 then MEDIUM
      else LOW)"

text \<open>\<open>xs[i]\<close> is \<open>undefined\<close> past the end of the array.\<close>

definition nthOpt :: "'a list \<Rightarrow> nat \<Rightarrow> 'a option" where
  "nthOpt xs i = (if i < length xs then Some (xs ! i) else None)"

text \<open>
  The four variables of the search loop, \<open>minSeparation\<close>, \<open>conflictTime\<close>,
  \<open>conflictPosition1\<close> and \<open>conflictPosition2\<close>, are assigned together: \<open>None\<close> is
  their initial state (\<open>Infinity\<close> and three times \<open>null\<close>), and the time is missing
  when \<open>timeStamps\<close> is shorter than the positions.
\<close>

type_synonym approach = "(real \<times> date option \<times> Position3D \<times> Position3D) option"

definition approachStep ::
  "TrajectoryPrediction \<Rightarrow> TrajectoryPrediction \<Rightarrow> approach \<Rightarrow> nat \<Rightarrow> approach" where
  "approachStep trajectory1 trajectory2 acc i =
     (let pos1 = predictedPositions trajectory1 ! i;
          pos2 = predictedPositions trajectory2 ! i;
          total = totalSeparation pos1 pos2
      in if (case acc of None \<Rightarrow> True | Some (minSeparation, _) \<Rightarrow> total < minSeparation)
         then Some (total, nthOpt (timeStamps trajectory1) i, pos1, pos2)
         else acc)"

definition closestApproach :: "TrajectoryPrediction \<Rightarrow> TrajectoryPrediction \<Rightarrow> approach" where
  "closestApproach trajectory1 trajectory2 =
     foldl (approachStep trajectory1 trajectory2) None
       [0 ..< min (length (predictedPositions trajectory1))
                  (length (predictedPositions trajectory2))]"

definition numberToString :: "int \<Rightarrow> string" where
  "numberToString n =
     (if n < 0 then CHR ''-'' # toStringRadix 10 (nat (- n)) else toStringRadix 10 (nat n))"

text \<open>
  \<open>detectPairwiseConflict\<close>; \<open>rnd\<close> is the string that
  \<open>Math.random().toString(36).substr(2, 9)\<close> yields in this call.
\<close>

definition detectPairwiseConflict ::
  "ConflictParameters \<Rightarrow> Aircraft \<Rightarrow> Aircraft \<Rightarrow> TrajectoryPrediction option
     \<Rightarrow> TrajectoryPrediction option \<Rightarrow> date \<Rightarrow> string \<Rightarrow> Conflict option" where
  "detectPairwiseConflict standards aircraft1 aircraft2 trajectory1 trajectory2 now rnd =
     (case (trajectory1, trajectory2) of
        (Some t1, Some t2) \<Rightarrow>
          (case closestApproach t1 t2 of
             Some (minSeparation, Some conflictTime, conflictPosition1, conflictPosition2) \<Rightarrow>
               if minSeparation < horizontalSeparation standards then
                 (let timeToConflict = real_of_int (conflictTime - now) / 1000 in
                  if timeToConflict > 0 \<and> timeToConflict \<le> timeHorizon standards then
                    Some \<lparr>conflictId = ''conflict_'' @ numberToString now @ ''_'' @ rnd,
                          aircraftInvolved = [aircraft1, aircraft2],
                          conflictType = determineConflictType aircraft1 aircraft2
                                           conflictPosition1 conflictPosition2,
                          timeToConflict = timeToConflict,
                          severity = calculateSeverity minSeparation timeToConflict,
                          resolutionOptions = [],
                          conflictStatus = DETECTED,
                          detectedAt = now\<rparr>
                  else None)
               else None
           | _ \<Rightarrow> None)
      | _ \<Rightarrow> None)"

subsection \<open>The detection cycle\<close>

text \<open>The pairs \<open>(aircraft[i], aircraft[j])\<close> with \<open>i < j\<close>, in the order of the two loops.\<close>

fun pairsOf :: "'a list \<Rightarrow> ('a \<times> 'a) list" where
  "pairsOf [] = []"
| "pairsOf (a # as) = map (Pair a) as @ pairsOf as"

text \<open>
  One round of the inner loop; the conflict found is the next one of the cycle, and
  \<open>rnds k\<close> is the random string of the \<open>k\<close>-th conflict of the cycle.
\<close>

definition detectPair ::
  "ConflictParameters \<Rightarrow> (string \<times> TrajectoryPrediction) list \<Rightarrow> date \<Rightarrow> (nat \<Rightarrow> string)
     \<Rightarrow> Conflict list \<Rightarrow> Aircraft \<times> Aircraft \<Rightarrow> Conflict list" where
  "detectPair standards trajectories now rnds detectedConflicts pair =
     (case detectPairwiseConflict standards (fst pair) (snd pair)
             (map_of trajectories (callsign (fst pair)))
             (map_of trajectories (callsign (snd pair)))
             now (rnds (length detectedConflicts)) of
        Some conflict \<Rightarrow> detectedConflicts @ [conflict]
      | None \<Rightarrow> detectedConflicts)"

definition moveConflictToHistory :: "DetectionState \<Rightarrow> string \<Rightarrow> date \<Rightarrow> DetectionState" where
  "moveConflictToHistory st cid now =
     (case map_of (activeConflicts st) cid of
        None \<Rightarrow> st
      | Some conflict \<Rightarrow>
          (let cutoffTime = now - 24 * 60 * 60 * 1000 in
           st\<lparr>conflictHistory :=
                 filter (\<lambda>c. detectedAt c \<ge> cutoffTime) (conflictHistory st @ [conflict]),
              activeConflicts := mapDelete (activeConflicts st) cid\<rparr>))"

definition resolveIfAbsent ::
  "string list \<Rightarrow> date \<Rightarrow> DetectionState \<Rightarrow> string \<times> Conflict \<Rightarrow> DetectionState" where
  "resolveIfAbsent currentConflictIds now st entry =
     (if fst entry \<notin> set currentConflictIds
      then moveConflictToHistory
             (st\<lparr>activeConflicts :=
                   mapSet (activeConflicts st) (fst entry)
                     ((snd entry)\<lparr>conflictStatus := RESOLVED\<rparr>)\<rparr>)
             (fst entry) now
      else st)"

definition updateActiveConflicts :: "DetectionState \<Rightarrow> Conflict list \<Rightarrow> date \<Rightarrow> DetectionState" where
  "updateActiveConflicts st newConflicts now =
     (let currentConflictIds = map conflictId newConflicts;
          st' = foldl (resolveIfAbsent currentConflictIds now) st (activeConflicts st)
      in st'\<lparr>activeConflicts :=
              foldl (\<lambda>m conflict. mapSet m (conflictId conflict) conflict)
                (activeConflicts st') newConflicts\<rparr>)"

text \<open>
  The conflicts that one cycle detects (the list \<open>detectedConflicts\<close> after the two
  loops), given the trajectories; then \<open>detectConflicts\<close>: the list returned or the error
  thrown, and the state after the cycle.
\<close>

definition detectAllPairs ::
  "ConflictParameters \<Rightarrow> (string \<times> TrajectoryPrediction) list \<Rightarrow> Aircraft list \<Rightarrow> date
     \<Rightarrow> (nat \<Rightarrow> string) \<Rightarrow> Conflict list" where
  "detectAllPairs standards trajectories activeAircraft now rnds =
     foldl (detectPair standards trajectories now rnds) [] (pairsOf activeAircraft)"

definition detectConflicts ::
  "DetectionState \<Rightarrow> Aircraft list \<Rightarrow> date \<Rightarrow> (nat \<Rightarrow> string)
     \<Rightarrow> (error + Conflict list) \<times> DetectionState" where
  "detectConflicts st aircraft now rnds =
     (let activeAircraft = filterActiveAircraft aircraft now in
      if length activeAircraft < 2 then (Inr [], st)
      else
        (case generateTrajectoryPredictions (separationStandards st) (trajectoryCache st)
                activeAircraft now of
           (Some e, trajectories, cache) \<Rightarrow> (Inl e, st\<lparr>trajectoryCache := cache\<rparr>)
         | (None, trajectories, cache) \<Rightarrow>
             (let detectedConflicts =
                    detectAllPairs (separationStandards st) trajectories activeAircraft now rnds;
                  st' = updateActiveConflicts (st\<lparr>trajectoryCache := cache\<rparr>)
                          detectedConflicts now
              in (Inr (mapValues (activeConflicts st')), st'))))"

text \<open>
  The conflicts detected by the cycle that \<open>detectConflicts\<close> runs: empty when the cycle
  returns early or throws.
\<close>

definition detectedInCycle ::
  "DetectionState \<Rightarrow> Aircraft list \<Rightarrow> date \<Rightarrow> (nat \<Rightarrow> string) \<Rightarrow> Conflict list" where
  "detectedInCycle st aircraft now rnds =
     (let activeAircraft = filterActiveAircraft aircraft now in
      if length activeAircraft < 2 then []
      else
        (case generateTrajectoryPredictions (separationStandards st) (trajectoryCache st)
                activeAircraft now of
           (Some e, trajectories, cache) \<Rightarrow> []
         | (None, trajectories, cache) \<Rightarrow>
             detectAllPairs (separationStandards st) trajectories activeAircraft now rnds))"

subsection \<open>The closest point of approach, as the specification words it\<close>

text \<open>
  The specification's own description of the search, to be compared with
  \<^const>\<open>closestApproach\<close>: the combined separation
  \<open>sqrt(horizontal\<^sup>2 + (vertical/6076.12)\<^sup>2)\<close> at each index that both trajectories
  have, its minimum over these indices, the first index at which the minimum occurs, and
  the time stamp of the first trajectory at that index.
\<close>

definition combinedSeparations :: "TrajectoryPrediction \<Rightarrow> TrajectoryPrediction \<Rightarrow> real list" where
  "combinedSeparations trajectory1 trajectory2 =
     map (\<lambda>(p1, p2). sqrt ((calculateHorizontalDistance p1 p2)\<^sup>2
                            + (\<bar>altitude p1 - altitude p2\<bar> / 6076.12)\<^sup>2))
       (zip (predictedPositions trajectory1) (predictedPositions trajectory2))"

definition firstMinimumIndex :: "real list \<Rightarrow> nat" where
  "firstMinimumIndex xs = length (takeWhile (\<lambda>x. x \<noteq> Min (set xs)) xs)"

definition minimumCombinedSeparation :: "TrajectoryPrediction \<Rightarrow> TrajectoryPrediction \<Rightarrow> real" where
  "minimumCombinedSeparation trajectory1 trajectory2 =
     Min (set (combinedSeparations trajectory1 trajectory2))"

definition closestApproachTime :: "TrajectoryPrediction \<Rightarrow> TrajectoryPrediction \<Rightarrow> date" where
  "closestApproachTime trajectory1 trajectory2 =
     timeStamps trajectory1 ! firstMinimumIndex (combinedSeparations trajectory1 trajectory2)"

subsection \<open>Example aircraft\<close>

text \<open>
  Two aircraft over the same point, the first level at 5000 ft, the second at 4000 ft and
  climbing at 10 m/s, both last updated at the instant 0; and a third on the ground.
\<close>

definition unknownFlightPlan :: FlightPlan where
  "unknownFlightPlan = \<lparr>origin = ''UNKNOWN'', destination = ''UNKNOWN'', route = [],
     cruiseAltitude = 0, estimatedDeparture = 0, estimatedArrival = 0\<rparr>"

definition levelAircraft :: Aircraft where
  "levelAircraft =
     \<lparr>callsign = ''UAL123'', flightPlan = unknownFlightPlan,
      currentPosition = \<lparr>latitude = 40, longitude = -74, altitude = 5000, timestamp = 0\<rparr>,
      velocity = \<lparr>vx = 0, vy = 0, vz = 0\<rparr>,
      acAltitude = 5000, heading = 0, squawkCode = ''1200'', status = ARRIVING,
      clearances = [], lastUpdate = 0\<rparr>"

definition climbingAircraft :: Aircraft where
  "climbingAircraft =
     \<lparr>callsign = ''DAL456'', flightPlan = unknownFlightPlan,
      currentPosition = \<lparr>latitude = 40, longitude = -74, altitude = 4000, timestamp = 0\<rparr>,
      velocity = \<lparr>vx = 0, vy = 0, vz = 10\<rparr>,
      acAltitude = 4000, heading = 0, squawkCode = ''1201'', status = DEPARTING,
      clearances = [], lastUpdate = 0\<rparr>"

definition groundAircraft :: Aircraft where
  "groundAircraft =
     \<lparr>callsign = ''JBU789'', flightPlan = unknownFlightPlan,
      currentPosition = \<lparr>latitude = 40, longitude = -74, altitude = 0, timestamp = 0\<rparr>,
      velocity = \<lparr>vx = 0, vy = 0, vz = 0\<rparr>,
      acAltitude = 0, heading = 0, squawkCode = ''1202'', status = TAXIING,
      clearances = [], lastUpdate = 0\<rparr>"



definition sampleTrajectories :: "(string \<times> TrajectoryPrediction) list" where
  "sampleTrajectories =
     [(''UAL123'', predictTrajectory defaultSeparationStandards levelAircraft 1000),
      (''DAL456'', predictTrajectory defaultSeparationStandards climbingAircraft 1000)]"

definition sampleGaps :: "real list" where
  "sampleGaps = map (\<lambda>t. \<bar>5000 - (4000 + 10 * real_of_int t * 3.28084)\<bar> / 6076.12) (timeSteps 10 0 300)"

definition sampleConflict :: "date \<Rightarrow> string \<Rightarrow> Conflict" where
  "sampleConflict now rnd =
     \<lparr>conflictId = ''conflict_'' @ numberToString now @ ''_'' @ rnd,
      aircraftInvolved = [levelAircraft, climbingAircraft],
      conflictType = SEPARATION_VIOLATION,
      timeToConflict = real_of_int (30000 - now) / 1000,
      severity = CRITICAL,
      resolutionOptions = [],
      conflictStatus = DETECTED,
      detectedAt = now\<rparr>"

definition afterFirstCycle :: DetectionState where
  "afterFirstCycle =
     \<lparr>separationStandards = defaultSeparationStandards,
      activeConflicts = [(''conflict_1000_k3j9x2m1q'', sampleConflict 1000 ''k3j9x2m1q'')],
      conflictHistory = [],
      trajectoryCache = sampleTrajectories\<rparr>"

subsection \<open>The prediction that a cycle uses\<close>


section \<open>Resolution suggestions (OpenAIService, OpenAIClient)\<close>

text \<open>
  The language-model service is outside the program: of one attempt to call it only the
  outcome matters, an error thrown or a response. Of an error, \<open>isRetryableError\<close>
  reads the message, the property \<open>type\<close> and the property \<open>status\<close>; a property is
  absent (\<open>None\<close>) or present with a value, and the value of \<open>type\<close> may be
  \<open>undefined\<close>. Of a response the service reads the arguments of the function call of
  the first choice (absent when any link of \<open>choices[0]?.message?.function_call\<close> or
  the arguments are missing or empty) and the token count.
\<close>

record ApiError =
  message :: string
  typeProperty :: "string option option"
  statusProperty :: "nat option"

record ApiResponse =
  functionCallArguments :: "string option"
  totalTokens :: "nat option"

datatype attempt = Failed ApiError | Responded ApiResponse

record RetryConfig =
  maxRetries :: nat
  baseDelay :: nat
  maxDelay :: nat
  backoffMultiplier :: nat

definition defaultRetryConfig :: RetryConfig where
  "defaultRetryConfig = \<lparr>maxRetries = 3, baseDelay = 1000, maxDelay = 30000, backoffMultiplier = 2\<rparr>"

text \<open>What the body of \<open>generateConflictResolutions\<close> can throw.\<close>

datatype service_error =
    RequestFailed ApiError
  | UndefinedThrown
  | InvalidResponseFormat
  | JsonSyntaxError
  | ResolutionsMissing

text \<open>\<open>haystack.includes(needle)\<close>.\<close>

fun startsWith :: "string \<Rightarrow> string \<Rightarrow> bool" where
  "startsWith s [] = True"
| "startsWith [] (c # cs) = False"
| "startsWith (d # ds) (c # cs) = (d = c \<and> startsWith ds cs)"

fun includesString :: "string \<Rightarrow> string \<Rightarrow> bool" where
  "includesString [] needle = (needle = [])"
| "includesString (d # ds) needle = (startsWith (d # ds) needle \<or> includesString ds needle)"

definition isRetryableError :: "ApiError \<Rightarrow> bool" where
  "isRetryableError err =
     (let retryableErrors = [''rate_limit_exceeded'', ''server_error'', ''timeout'',
                             ''connection_error'', ''service_unavailable'']
      in if includesString (message err) ''ECONNRESET'' \<or> includesString (message err) ''ETIMEDOUT''
            \<or> includesString (message err) ''ENOTFOUND''
         then True
         else (case typeProperty err of
                 Some t \<Rightarrow> (case t of None \<Rightarrow> False | Some ty \<Rightarrow> ty \<in> set retryableErrors)
               | None \<Rightarrow>
                   (case statusProperty err of
                      Some st \<Rightarrow> st \<ge> 500 \<or> st = 429
                    | None \<Rightarrow> False)))"

text \<open>
  The loop of \<open>executeWithRetry\<close> from the attempt \<open>attempt\<close> on; \<open>operation k\<close> is
  the outcome of the attempt \<open>k\<close>. The waits of the rate limiter and of the back-off take
  time and change nothing else. After the loop the source throws \<open>lastError\<close>, which is
  \<open>undefined\<close> when no attempt was made.
\<close>

function executeWithRetryFrom ::
  "RetryConfig \<Rightarrow> (nat \<Rightarrow> attempt) \<Rightarrow> nat \<Rightarrow> ApiError option \<Rightarrow> service_error + ApiResponse" where
  "executeWithRetryFrom config operation attempt lastError =
     (if attempt \<le> maxRetries config then
        (case operation attempt of
           Responded result \<Rightarrow> Inr result
         | Failed err \<Rightarrow>
             if \<not> isRetryableError err \<or> attempt = maxRetries config
             then Inl (RequestFailed err)
             else executeWithRetryFrom config operation (attempt + 1) (Some err))
      else (case lastError of
              Some err \<Rightarrow> Inl (RequestFailed err)
            | None \<Rightarrow> Inl UndefinedThrown))"
  by pat_completeness auto
termination
  by (relation "measure (\<lambda>(config, operation, attempt, lastError).
                  Suc (maxRetries config) - attempt)") auto

declare executeWithRetryFrom.simps [simp del]

definition executeWithRetry ::
  "RetryConfig \<Rightarrow> (nat \<Rightarrow> attempt) \<Rightarrow> service_error + ApiResponse" where
  "executeWithRetry config operation = executeWithRetryFrom config operation 0 None"

text \<open>
  \<open>const { resolutions } = JSON.parse(functionCall.arguments)\<close> is a library call: it
  throws a \<open>SyntaxError\<close>, or yields an object without the key \<open>resolutions\<close> (reading
  \<open>resolutions.length\<close> then throws a \<open>TypeError\<close>), or yields the list.
\<close>

datatype parsed = SyntaxErrorThrown | NoResolutions | Resolutions "ResolutionOption list"

definition fallbackResolution :: ResolutionOption where
  "fallbackResolution =
     \<lparr>optionId = ''fallback-001'',
      description = ''Manual resolution required'',
      instructions = [''Contact supervisor for manual conflict resolution''],
      estimatedResolutionTime = 300,
      optionConfidence = 0.1\<rparr>"

text \<open>The body of the \<open>try\<close> block of \<open>generateConflictResolutions\<close>, then the function.\<close>

definition tryGenerateResolutions ::
  "(string \<Rightarrow> parsed) \<Rightarrow> RetryConfig \<Rightarrow> (nat \<Rightarrow> attempt)
     \<Rightarrow> service_error + ResolutionOption list" where
  "tryGenerateResolutions jsonParse config operation =
     (case executeWithRetry config operation of
        Inl e \<Rightarrow> Inl e
      | Inr result \<Rightarrow>
          (case functionCallArguments result of
             None \<Rightarrow> Inl InvalidResponseFormat
           | Some arguments \<Rightarrow>
               if arguments = [] then Inl InvalidResponseFormat
               else (case jsonParse arguments of
                       SyntaxErrorThrown \<Rightarrow> Inl JsonSyntaxError
                     | NoResolutions \<Rightarrow> Inl ResolutionsMissing
                     | Resolutions resolutions \<Rightarrow> Inr resolutions)))"

definition generateConflictResolutions ::
  "(string \<Rightarrow> parsed) \<Rightarrow> RetryConfig \<Rightarrow> (nat \<Rightarrow> attempt) \<Rightarrow> ResolutionOption list" where
  "generateConflictResolutions jsonParse config operation =
     (case tryGenerateResolutions jsonParse config operation of
        Inr resolutions \<Rightarrow> resolutions
      | Inl e \<Rightarrow> [fallbackResolution])"

text \<open>An attempt that ends in a network time-out, and a parser that is never reached.\<close>

definition timedOut :: attempt where
  "timedOut = Failed \<lparr>message = ''connect ETIMEDOUT 104.18.7.192:443'',
                      typeProperty = None, statusProperty = None\<rparr>"

definition noParse :: "string \<Rightarrow> parsed" where
  "noParse arguments = SyntaxErrorThrown"

section \<open>Properties of the decoder\<close>

subsection \<open>Auxiliary facts\<close>

lemma readFSPECLoop_error:
  "0 \<le> off \<Longrightarrow> 0 \<le> fl \<Longrightarrow> readFSPECLoop sp re data off fl fi pf = Inl e \<Longrightarrow> e = IncompleteFSPEC"
proof (induction sp re data off fl fi pf rule: readFSPECLoop.induct)
  case (1 sp re data offset fspecLength fieldIndex presentFields)
  show ?case
  proof (cases "offset + fspecLength \<ge> int (length data)")
    case True
    with "1.prems" show ?thesis by (simp add: readFSPECLoop.simps[of sp re data offset fspecLength])
  next
    case False
    then have rd: "\<And>k. k = offset + fspecLength \<Longrightarrow> readUInt8 data k = Inr (unat (data ! nat k))"
      using "1.prems" by (simp add: readUInt8_def)
    show ?thesis
    proof (cases "unat (data ! nat (offset + fspecLength)) AND 1 = 1")
      case True
      have rec: "readFSPECLoop sp re data offset (fspecLength + 1)
              (fst (fspecBits sp re (unat (data ! nat (offset + fspecLength))) 7 fieldIndex presentFields))
              (snd (fspecBits sp re (unat (data ! nat (offset + fspecLength))) 7 fieldIndex presentFields)) = Inl e"
        using "1.prems"(3) False True rd
        by (subst (asm) readFSPECLoop.simps) (simp add: bindE_def Let_def)
      show ?thesis
        by (rule "1.IH"[OF False refl refl True "1.prems"(1) _ rec]) (use "1.prems"(2) in simp)
    next
      case F2: False
      show ?thesis
        using "1.prems"(3) False F2 rd
        by (subst (asm) readFSPECLoop.simps) (simp add: bindE_def Let_def)
    qed
  qed
qed

lemma decodeMessage_errors:
  assumes "categories category = Some categoryDef"
  shows "fst (decodeMessage sp re category data) = Inl IncompleteFSPEC \<or>
         (\<exists>r. fst (decodeMessage sp re category data) = Inr r)"
proof (cases "readFSPEC sp re data 0")
  case (Inl e)
  then have "e = IncompleteFSPEC"
    using readFSPECLoop_error[of 0 0 sp re data 1 "[]" e] by (simp add: readFSPEC_def)
  with Inl assms show ?thesis
    by (simp add: decodeMessage_def decodeDataRecord_def bindE_def)
next
  case (Inr r)
  with assms show ?thesis
    by (simp add: decodeMessage_def decodeDataRecord_def bindE_def)
qed

lemma decodeFields_Cons:
  "decodeFields c d st (f # fs) = decodeFields c d (decodeField c d st f) fs"
  by (simp add: decodeFields_def)




text \<open>Evaluating the framing functions on the two example records used below.\<close>

lemma fspecBits_numeral:
  "fspecBits sp re fspecByte (numeral k) fieldIndex presentFields =
     fspecBits sp re fspecByte (pred_numeral k) (fieldIndex + 1)
       (if fspecByte AND push_bit (pred_numeral k) 1 \<noteq> 0
        then (case mapFieldIndexToId sp re fieldIndex of
                Some fieldId \<Rightarrow> presentFields @ [fieldId]
              | None \<Rightarrow> presentFields)
        else presentFields)"
  by (simp add: numeral_eq_Suc)

lemma fspecBits_0x40: "fspecBits sp re 0x40 7 (Suc 0) [] = (8, [0x010])"
  by (simp add: fspecBits_numeral mapFieldIndexToId_def fieldMap_def)



lemma readFSPEC_example_truncated: "readFSPEC sp re [0x40, 0x01] 0 = Inr ([0x010], 1)"
  by (simp add: readFSPEC_def readFSPECLoop.simps readUInt8_def bindE_def fspecBits_0x40)


lemma toStringRadix_hex_010: "toStringRadix 16 0x010 = ''10''"
  by (simp add: toStringRadix.simps digitChar_def)






subsection \<open>A field that is longer than the rest of the buffer\<close>

text \<open>
  Claim C2, as amended. For a category with a registered catalogue, when the length
  computed for a present field exceeds the octets that remain at the current offset,
  \<open>decodeDataRecord\<close> does not fail: the \<open>Insufficient data\<close> error is caught inside the
  loop, the failure is logged, the field is left out of the result (its decoder is not
  called, so none of its octets is read), the offset advances by one octet and the loop
  goes on with the next present field. \<open>decodeMessage\<close> itself fails for such a
  category only when the field specification is incomplete.
\<close>

theorem truncated_field_is_skipped:
  assumes reg: "categories category = Some categoryDef"
      and fld: "catFields categoryDef fieldId = Some fieldDef"
      and len: "getFieldLength fieldDef data (offset st) = Inr fieldLength"
      and trunc: "offset st + fieldLength > int (length data)"
  shows "decodeField categoryDef data st fieldId =
           st\<lparr>logged := logged st @
                 [LogError ''Field decoding failed'' (InsufficientData fieldId)
                    (catNumber categoryDef) (toStringRadix 16 fieldId)],
              offset := offset st + 1\<rparr>
         \<and> decodeFields categoryDef data st (fieldId # rest) =
             decodeFields categoryDef data (decodeField categoryDef data st fieldId) rest
         \<and> (fst (decodeMessage sp re category data) = Inl IncompleteFSPEC \<or>
            (\<exists>r. fst (decodeMessage sp re category data) = Inr r))"
proof (intro conjI)
  show "decodeField categoryDef data st fieldId =
           st\<lparr>logged := logged st @
                 [LogError ''Field decoding failed'' (InsufficientData fieldId)
                    (catNumber categoryDef) (toStringRadix 16 fieldId)],
              offset := offset st + 1\<rparr>"
    using fld len trunc by (simp add: decodeField_def tryField_def bindE_def)
  show "decodeFields categoryDef data st (fieldId # rest) =
             decodeFields categoryDef data (decodeField categoryDef data st fieldId) rest"
    by (rule decodeFields_Cons)
  show "fst (decodeMessage sp re category data) = Inl IncompleteFSPEC \<or>
            (\<exists>r. fst (decodeMessage sp re category data) = Inr r)"
    by (rule decodeMessage_errors[OF reg])
qed

lemma cat048_field_010:
  "catFields cat048 0x010 = Some \<lparr> defId = 0x010, defName = ''Data Source Identifier'', defType = FIXED,
                   defLength = Some 2, decoder = decodeDataSourceIdentifier \<rparr>"
  by (simp add: cat048_def)

theorem truncated_field_is_skipped_witness:
  "categories 48 = Some cat048
   \<and> catFields cat048 0x010 = Some \<lparr> defId = 0x010, defName = ''Data Source Identifier'', defType = FIXED,
                   defLength = Some 2, decoder = decodeDataSourceIdentifier \<rparr>
   \<and> getFieldLength \<lparr> defId = 0x010, defName = ''Data Source Identifier'', defType = FIXED,
                   defLength = Some 2, decoder = decodeDataSourceIdentifier \<rparr> [0x40, 0x01] 
          (offset \<lparr>offset = 1, resultFields = [], logged = []\<rparr>) = Inr 2
   \<and> offset \<lparr>offset = 1, resultFields = [], logged = []\<rparr> + 2 > int (length [0x40 :: 8 word, 0x01])
   \<and> decodeField cat048 [0x40, 0x01] \<lparr>offset = 1, resultFields = [], logged = []\<rparr> 0x010 =
        \<lparr>offset = 2, resultFields = [],
          logged = [LogError ''Field decoding failed'' (InsufficientData 0x010) 48 ''10'']\<rparr>"
proof -
  let ?fd = "\<lparr> defId = 0x010, defName = ''Data Source Identifier'', defType = FIXED,
                   defLength = Some 2, decoder = decodeDataSourceIdentifier \<rparr>"
  let ?st = "\<lparr>offset = 1, resultFields = [], logged = []\<rparr>"
  have h1: "categories 48 = Some cat048" by (simp add: categories_def)
  have h2: "catFields cat048 0x010 = Some ?fd" by (rule cat048_field_010)
  have h3: "getFieldLength ?fd [0x40, 0x01] (offset ?st) = Inr 2" by (simp add: getFieldLength_def)
  have h4: "offset ?st + 2 > int (length [0x40 :: 8 word, 0x01])" by simp
  have r: "toStringRadix 16 0x010 = ''10''"
    by (rule toStringRadix_hex_010)
  have c: "catNumber cat048 = 48" by (simp add: cat048_def)
  from truncated_field_is_skipped[OF h1 h2 h3 h4, of "[]" 0 0]
  have "decodeField cat048 [0x40, 0x01] ?st 0x010 =
        \<lparr>offset = 2, resultFields = [],
          logged = [LogError ''Field decoding failed'' (InsufficientData 0x010) 48 ''10'']\<rparr>"
    by (simp add: r c)
  with h1 h2 h3 h4 show ?thesis by blast
qed

text \<open>
  Claim C2, as stated, fails. In category 048 the record \<open>40 01\<close> announces the data
  source identifier, of two octets, and holds one: \<open>decodeMessage\<close> returns a record
  with no field instead of failing.
\<close>

theorem truncated_field_counterexample:
  "categories 48 = Some cat048
   \<and> readFSPEC 0 0 [0x40, 0x01] 0 = Inr ([0x010], 1)
   \<and> map_option defLength (catFields cat048 0x010) = Some (Some 2)
   \<and> fst (decodeMessage 0 0 48 [0x40, 0x01]) =
       Inr (48, \<lparr>offset = 2, resultFields = [],
                  logged = [LogError ''Field decoding failed'' (InsufficientData 0x010) 48 ''10'']\<rparr>)"
  by (simp add: readFSPEC_example_truncated decodeMessage_def categories_def decodeDataRecord_def
        bindE_def decodeFields_def decodeField_def cat048_def tryField_def getFieldLength_def
        toStringRadix_hex_010)

subsection \<open>A presence bit without a catalogue entry\<close>




section \<open>Properties of the track store\<close>

subsection \<open>Auxiliary facts\<close>












lemma map_of_mapSet_same: "map_of (mapSet m k v) k = Some v"
  by (induction m) auto


lemma updateRadarTrack_existing:
  assumes "newTrackNumber trackData = Some n" and "n \<noteq> 0"
      and "map_of (radarTracks st) n = Some existingTrack"
      and "newPosition trackData = Some p"
  shows "map_of (radarTracks (updateRadarTrack st trackData now)) n =
         Some ((spreadTrack existingTrack trackData now
                  (calculateTrackQuality existingTrack trackData now))
               \<lparr>trackVelocity := calculateVelocity (position existingTrack) p
                                    (trackLastUpdate existingTrack) now,
                trackHeading := calculateHeading (calculateVelocity (position existingTrack) p
                                    (trackLastUpdate existingTrack) now),
                groundSpeed := Some (calculateGroundSpeed (calculateVelocity
                                    (position existingTrack) p
                                    (trackLastUpdate existingTrack) now))\<rparr>)"
  using assms by (simp add: updateRadarTrack_def Let_def map_of_mapSet_same)

lemma calculateVelocity_nonpositive:
  "time2 \<le> time1 \<Longrightarrow> calculateVelocity pos1 pos2 time1 time2 = \<lparr>vx = 0, vy = 0, vz = 0\<rparr>"
  by (simp add: calculateVelocity_def Let_def divide_le_0_iff)

lemma calculateHeading_zero: "calculateHeading \<lparr>vx = 0, vy = 0, vz = 0\<rparr> = 0"
  by (simp add: calculateHeading_def atan2_def)

lemma calculateGroundSpeed_zero: "calculateGroundSpeed \<lparr>vx = 0, vy = 0, vz = 0\<rparr> = 0"
  by (simp add: calculateGroundSpeed_def)






subsection \<open>Staleness\<close>




subsection \<open>Velocity when no time has passed\<close>

text \<open>
  Claim C5, as amended. When an update with a position reaches an existing track and the
  time elapsed since the track's last update is zero or negative, the velocity of the
  track is not kept: it is set to the zero vector, and the heading and the ground speed
  are set to 0 with it.
\<close>

theorem nonpositive_elapsed_time_zeroes_velocity:
  assumes "newTrackNumber trackData = Some n" and "n \<noteq> 0"
      and "map_of (radarTracks st) n = Some existingTrack"
      and "newPosition trackData = Some p"
      and "now \<le> trackLastUpdate existingTrack"
  shows "\<exists>t. map_of (radarTracks (updateRadarTrack st trackData now)) n = Some t
             \<and> trackVelocity t = \<lparr>vx = 0, vy = 0, vz = 0\<rparr>
             \<and> trackHeading t = 0
             \<and> groundSpeed t = Some 0"
  using updateRadarTrack_existing[OF assms(1-4), of now] assms(5)
  by (simp add: calculateVelocity_nonpositive calculateHeading_zero calculateGroundSpeed_zero)

theorem nonpositive_elapsed_time_zeroes_velocity_witness:
  "\<exists>t. map_of (radarTracks (updateRadarTrack movingState sampleUpdate 1000)) 7 = Some t
             \<and> trackVelocity t = \<lparr>vx = 0, vy = 0, vz = 0\<rparr>
             \<and> trackHeading t = 0
             \<and> groundSpeed t = Some 0"
proof -
  have h1: "newTrackNumber sampleUpdate = Some 7" by (simp add: sampleUpdate_def)
  have h2: "(7::nat) \<noteq> 0" by simp
  have h3: "map_of (radarTracks movingState) 7 = Some movingTrack" by (simp add: movingState_def)
  have h4: "newPosition sampleUpdate =
      Some \<lparr>latitude = 40, longitude = -74, altitude = 5000, timestamp = 0\<rparr>"
    by (simp add: sampleUpdate_def)
  have h5: "1000 \<le> trackLastUpdate movingTrack" by (simp add: movingTrack_def)
  show ?thesis by (rule nonpositive_elapsed_time_zeroes_velocity[OF h1 h2 h3 h4 h5])
qed

text \<open>
  Claim C5, as stated, fails. A track that moves east at 100 m/s and was last updated at
  the instant 1000 receives a new position at the same instant 1000: its velocity becomes
  the zero vector, not the previous value.
\<close>

theorem velocity_not_kept_counterexample:
  "map_of (radarTracks movingState) 7 = Some movingTrack
   \<and> newPosition sampleUpdate \<noteq> None
   \<and> real_of_int (1000 - trackLastUpdate movingTrack) / 1000 \<le> 0
   \<and> map_option trackVelocity (map_of (radarTracks (updateRadarTrack movingState sampleUpdate 1000)) 7)
       = Some \<lparr>vx = 0, vy = 0, vz = 0\<rparr>
   \<and> trackVelocity movingTrack = \<lparr>vx = 100, vy = 0, vz = 0\<rparr>"
proof -
  have h1: "newTrackNumber sampleUpdate = Some 7" by (simp add: sampleUpdate_def)
  have h2: "(7::nat) \<noteq> 0" by simp
  have h3: "map_of (radarTracks movingState) 7 = Some movingTrack" by (simp add: movingState_def)
  have h4: "newPosition sampleUpdate =
      Some \<lparr>latitude = 40, longitude = -74, altitude = 5000, timestamp = 0\<rparr>"
    by (simp add: sampleUpdate_def)
  have h5: "(1000::int) \<le> trackLastUpdate movingTrack" by (simp add: movingTrack_def)
  have "map_option trackVelocity (map_of (radarTracks (updateRadarTrack movingState sampleUpdate 1000)) 7)
       = Some \<lparr>vx = 0, vy = 0, vz = 0\<rparr>"
    using updateRadarTrack_existing[OF h1 h2 h3 h4, of 1000] h5
    by (simp add: calculateVelocity_nonpositive)
  then show ?thesis using h3 h4 by (simp add: movingTrack_def)
qed

subsection \<open>Heading\<close>



section \<open>Properties of conflict detection\<close>

subsection \<open>Auxiliary facts\<close>

lemma takeWhile_shorter:
  "\<exists>y \<in> set xs. \<not> P y \<Longrightarrow> length (takeWhile P xs) < length xs"
  by (induction xs) auto

lemma Min_snoc_less:
  fixes x :: real
  assumes "xs \<noteq> []" and "x < Min (set xs)"
  shows "Min (set (xs @ [x])) = x" and "firstMinimumIndex (xs @ [x]) = length xs"
proof -
  have "Min (set (xs @ [x])) = min x (Min (set xs))"
    using assms(1) by (simp add: Min_insert)
  then show m: "Min (set (xs @ [x])) = x"
    using assms(2) by (simp only: min_def) simp
  have "\<forall>y \<in> set xs. y \<noteq> x"
    using assms by (metis List.finite_set Min_le not_le)
  then have "takeWhile (\<lambda>y. y \<noteq> x) (xs @ [x]) = xs"
    by (simp add: takeWhile_append2)
  then show "firstMinimumIndex (xs @ [x]) = length xs"
    unfolding firstMinimumIndex_def m by simp
qed

lemma Min_snoc_ge:
  fixes x :: real
  assumes "xs \<noteq> []" and "\<not> x < Min (set xs)"
  shows "Min (set (xs @ [x])) = Min (set xs)"
    and "firstMinimumIndex (xs @ [x]) = firstMinimumIndex xs"
    and "firstMinimumIndex xs < length xs"
proof -
  have "Min (set (xs @ [x])) = min x (Min (set xs))"
    using assms(1) by (simp add: Min_insert)
  then show m: "Min (set (xs @ [x])) = Min (set xs)"
    using assms(2) by (simp only: min_def) simp
  have "Min (set xs) \<in> set xs" using assms(1) by (simp add: Min_in)
  then have ex: "\<exists>y \<in> set xs. \<not> (y \<noteq> Min (set xs))" by blast
  then have "takeWhile (\<lambda>y. y \<noteq> Min (set xs)) (xs @ [x]) = takeWhile (\<lambda>y. y \<noteq> Min (set xs)) xs"
    by (simp add: takeWhile_append1)
  then show "firstMinimumIndex (xs @ [x]) = firstMinimumIndex xs"
    unfolding firstMinimumIndex_def m by simp
  show "firstMinimumIndex xs < length xs"
    unfolding firstMinimumIndex_def using ex by (rule takeWhile_shorter)
qed

lemma combinedSeparations_length:
  "length (combinedSeparations t1 t2) =
     min (length (predictedPositions t1)) (length (predictedPositions t2))"
  by (simp add: combinedSeparations_def)

lemma combinedSeparations_nth:
  assumes "i < length (predictedPositions t1)" and "i < length (predictedPositions t2)"
  shows "combinedSeparations t1 t2 ! i =
           totalSeparation (predictedPositions t1 ! i) (predictedPositions t2 ! i)"
  using assms by (simp add: combinedSeparations_def totalSeparation_def Let_def)

lemma closestApproach_prefix:
  assumes "k \<le> min (length (predictedPositions t1)) (length (predictedPositions t2))"
  shows "foldl (approachStep t1 t2) None [0 ..< k] =
           (if k = 0 then None
            else (let seps = take k (combinedSeparations t1 t2); i = firstMinimumIndex seps
                  in Some (Min (set seps), nthOpt (timeStamps t1) i,
                           predictedPositions t1 ! i, predictedPositions t2 ! i)))"
  using assms
proof (induction k)
  case 0
  show ?case by simp
next
  case (Suc k)
  let ?seps = "combinedSeparations t1 t2"
  have k1: "k < length (predictedPositions t1)" and k2: "k < length (predictedPositions t2)"
    using Suc.prems by simp_all
  have kl: "k < length ?seps" using k1 k2 by (simp add: combinedSeparations_length)
  have tk: "take (Suc k) ?seps = take k ?seps @ [?seps ! k]"
    using kl by (simp add: take_Suc_conv_app_nth)
  have sk: "?seps ! k = totalSeparation (predictedPositions t1 ! k) (predictedPositions t2 ! k)"
    by (rule combinedSeparations_nth[OF k1 k2])
  have IH: "foldl (approachStep t1 t2) None [0 ..< k] =
           (if k = 0 then None
            else (let seps = take k ?seps; i = firstMinimumIndex seps
                  in Some (Min (set seps), nthOpt (timeStamps t1) i,
                           predictedPositions t1 ! i, predictedPositions t2 ! i)))"
    using Suc.IH Suc.prems by simp
  have step: "foldl (approachStep t1 t2) None [0 ..< Suc k] =
                approachStep t1 t2 (foldl (approachStep t1 t2) None [0 ..< k]) k"
    by simp
  show ?case
  proof (cases "k = 0")
    case True
    have "approachStep t1 t2 None 0 =
            Some (?seps ! 0, nthOpt (timeStamps t1) 0,
                  predictedPositions t1 ! 0, predictedPositions t2 ! 0)"
      using sk True by (simp add: approachStep_def Let_def)
    then show ?thesis
      using True kl unfolding step
      by (simp add: take_Suc_conv_app_nth firstMinimumIndex_def Let_def)
  next
    case False
    then have ne: "take k ?seps \<noteq> []" using kl by auto
    have lk: "length (take k ?seps) = k" using kl by simp
    let ?i = "firstMinimumIndex (take k ?seps)"
    have acc: "foldl (approachStep t1 t2) None [0 ..< k] =
                 Some (Min (set (take k ?seps)), nthOpt (timeStamps t1) ?i,
                       predictedPositions t1 ! ?i, predictedPositions t2 ! ?i)"
      using IH False by (simp add: Let_def)
    show ?thesis
    proof (cases "?seps ! k < Min (set (take k ?seps))")
      case True
      have "approachStep t1 t2 (Some (Min (set (take k ?seps)), nthOpt (timeStamps t1) ?i,
                       predictedPositions t1 ! ?i, predictedPositions t2 ! ?i)) k =
            Some (?seps ! k, nthOpt (timeStamps t1) k,
                  predictedPositions t1 ! k, predictedPositions t2 ! k)"
        using True sk by (simp add: approachStep_def Let_def)
      moreover have "Min (set (take (Suc k) ?seps)) = ?seps ! k"
        unfolding tk by (rule Min_snoc_less(1)[OF ne True])
      moreover have "firstMinimumIndex (take (Suc k) ?seps) = k"
        unfolding tk using Min_snoc_less(2)[OF ne True] lk by simp
      ultimately show ?thesis
        unfolding step acc by (simp add: Let_def)
    next
      case F: False
      have "approachStep t1 t2 (Some (Min (set (take k ?seps)), nthOpt (timeStamps t1) ?i,
                       predictedPositions t1 ! ?i, predictedPositions t2 ! ?i)) k =
            Some (Min (set (take k ?seps)), nthOpt (timeStamps t1) ?i,
                       predictedPositions t1 ! ?i, predictedPositions t2 ! ?i)"
        using F sk by (simp add: approachStep_def Let_def)
      moreover have "Min (set (take (Suc k) ?seps)) = Min (set (take k ?seps))"
        unfolding tk by (rule Min_snoc_ge(1)[OF ne F])
      moreover have "firstMinimumIndex (take (Suc k) ?seps) = ?i"
        unfolding tk by (rule Min_snoc_ge(2)[OF ne F])
      ultimately show ?thesis
        unfolding step acc by (simp add: Let_def)
    qed
  qed
qed

lemma closestApproach_eq:
  assumes "predictedPositions t1 \<noteq> []" and "predictedPositions t2 \<noteq> []"
  shows "closestApproach t1 t2 =
           Some (minimumCombinedSeparation t1 t2,
                 nthOpt (timeStamps t1) (firstMinimumIndex (combinedSeparations t1 t2)),
                 predictedPositions t1 ! firstMinimumIndex (combinedSeparations t1 t2),
                 predictedPositions t2 ! firstMinimumIndex (combinedSeparations t1 t2))"
proof -
  let ?n = "min (length (predictedPositions t1)) (length (predictedPositions t2))"
  have n0: "?n \<noteq> 0" using assms by simp
  have tk: "take ?n (combinedSeparations t1 t2) = combinedSeparations t1 t2"
    by (simp add: combinedSeparations_length)
  from closestApproach_prefix[of ?n t1 t2] n0 show ?thesis
    unfolding closestApproach_def minimumCombinedSeparation_def
    by (simp add: tk Let_def)
qed

lemma firstMinimumIndex_less:
  "xs \<noteq> [] \<Longrightarrow> firstMinimumIndex xs < length xs"
  unfolding firstMinimumIndex_def
  by (rule takeWhile_shorter) (use Min_in[of "set xs"] in auto)

lemma timeSteps_default: "timeSteps 10 0 300 =
  [0, 10, 20, 30, 40, 50, 60, 70, 80, 90, 100, 110, 120, 130, 140, 150, 160, 170, 180, 190,
   200, 210, 220, 230, 240, 250, 260, 270, 280, 290, 300]"
  by (simp add: timeSteps.simps)

lemma calculateHorizontalDistance_same_point:
  assumes "latitude p1 = latitude p2" and "longitude p1 = longitude p2"
  shows "calculateHorizontalDistance p1 p2 = 0"
  using assms by (simp add: calculateHorizontalDistance_def atan2_def)

lemma totalSeparation_same_point:
  assumes "latitude p1 = latitude p2" and "longitude p1 = longitude p2"
  shows "totalSeparation p1 p2 = \<bar>altitude p1 - altitude p2\<bar> / 6076.12"
  using assms by (simp add: totalSeparation_def calculateHorizontalDistance_same_point)

lemma predictedPosition_level:
  "predictedPosition levelAircraft t =
     \<lparr>latitude = 40, longitude = -74, altitude = 5000, timestamp = t * 1000\<rparr>"
  by (simp add: predictedPosition_def levelAircraft_def)

lemma predictedPosition_climbing:
  "predictedPosition climbingAircraft t =
     \<lparr>latitude = 40, longitude = -74, altitude = 4000 + 10 * real_of_int t * 3.28084,
      timestamp = t * 1000\<rparr>"
  by (simp add: predictedPosition_def climbingAircraft_def)

lemma combinedSeparations_sample:
  "combinedSeparations (predictTrajectory defaultSeparationStandards levelAircraft n1)
     (predictTrajectory defaultSeparationStandards climbingAircraft n2) = sampleGaps"
proof -
  have "\<And>t. sqrt ((calculateHorizontalDistance (predictedPosition levelAircraft t)
                      (predictedPosition climbingAircraft t))\<^sup>2
             + (\<bar>altitude (predictedPosition levelAircraft t)
                 - altitude (predictedPosition climbingAircraft t)\<bar> / 6076.12)\<^sup>2)
         = \<bar>5000 - (4000 + 10 * real_of_int t * 3.28084)\<bar> / 6076.12"
    by (simp add: calculateHorizontalDistance_same_point predictedPosition_level
          predictedPosition_climbing)
  then show ?thesis
    by (simp add: combinedSeparations_def predictTrajectory_def defaultSeparationStandards_def
          zip_map_map sampleGaps_def zip_same_conv_map Let_def)
qed

lemma sampleGaps_min: "Min (set sampleGaps) = 15.748 / 6076.12"
  by (simp add: sampleGaps_def timeSteps_default)

lemma sampleGaps_index: "firstMinimumIndex sampleGaps = 3"
  unfolding firstMinimumIndex_def sampleGaps_min
  by (simp add: sampleGaps_def timeSteps_default)

lemma detectPairwiseConflict_eq:
  assumes "predictedPositions t1 \<noteq> []" and "predictedPositions t2 \<noteq> []"
      and "length (timeStamps t1) = length (predictedPositions t1)"
  shows "detectPairwiseConflict standards aircraft1 aircraft2 (Some t1) (Some t2) now rnd =
     (if minimumCombinedSeparation t1 t2 < horizontalSeparation standards
         \<and> now < closestApproachTime t1 t2
         \<and> real_of_int (closestApproachTime t1 t2 - now) / 1000 \<le> timeHorizon standards
      then Some \<lparr>conflictId = ''conflict_'' @ numberToString now @ ''_'' @ rnd,
                  aircraftInvolved = [aircraft1, aircraft2],
                  conflictType = determineConflictType aircraft1 aircraft2
                    (predictedPositions t1 ! firstMinimumIndex (combinedSeparations t1 t2))
                    (predictedPositions t2 ! firstMinimumIndex (combinedSeparations t1 t2)),
                  timeToConflict = real_of_int (closestApproachTime t1 t2 - now) / 1000,
                  severity = calculateSeverity (minimumCombinedSeparation t1 t2)
                               (real_of_int (closestApproachTime t1 t2 - now) / 1000),
                  resolutionOptions = [],
                  conflictStatus = DETECTED,
                  detectedAt = now\<rparr>
      else None)"
proof -
  let ?i = "firstMinimumIndex (combinedSeparations t1 t2)"
  have ne: "combinedSeparations t1 t2 \<noteq> []"
    using assms(1,2) by (simp add: combinedSeparations_def)
  have "?i < length (combinedSeparations t1 t2)" by (rule firstMinimumIndex_less[OF ne])
  then have "?i < length (timeStamps t1)"
    using assms(3) by (simp add: combinedSeparations_length)
  then have ts: "nthOpt (timeStamps t1) ?i = Some (closestApproachTime t1 t2)"
    by (simp add: nthOpt_def closestApproachTime_def)
  have pos: "(0 < real_of_int (closestApproachTime t1 t2 - now) / 1000)
               = (now < closestApproachTime t1 t2)"
    by (simp add: zero_less_divide_iff)
  have ca: "closestApproach t1 t2 =
           Some (minimumCombinedSeparation t1 t2, Some (closestApproachTime t1 t2),
                 predictedPositions t1 ! ?i, predictedPositions t2 ! ?i)"
    using closestApproach_eq[OF assms(1,2)] ts by simp
  show ?thesis
    using pos by (simp add: detectPairwiseConflict_def ca Let_def)
qed

lemma predictTrajectory_positions_nonempty:
  "0 \<le> timeHorizon standards \<Longrightarrow> predictedPositions (predictTrajectory standards ac n) \<noteq> []"
  by (simp add: predictTrajectory_def Let_def timeSteps.simps[of 10 0])

lemma predictTrajectory_lengths:
  "length (timeStamps (predictTrajectory standards ac n)) =
   length (predictedPositions (predictTrajectory standards ac n))"
  by (simp add: predictTrajectory_def Let_def)

lemma predictTrajectory_first_timeStamp:
  "0 \<le> timeHorizon standards \<Longrightarrow>
   \<exists>rest. timeStamps (predictTrajectory standards ac n) = lastUpdate ac # rest"
  by (simp add: predictTrajectory_def Let_def timeSteps.simps[of 10 0])

lemma default_horizon: "0 \<le> timeHorizon defaultSeparationStandards"
  by (simp add: defaultSeparationStandards_def)

lemma sample_minimum:
  "minimumCombinedSeparation (predictTrajectory defaultSeparationStandards levelAircraft n1)
     (predictTrajectory defaultSeparationStandards climbingAircraft n2) = 15.748 / 6076.12"
  by (simp only: minimumCombinedSeparation_def combinedSeparations_sample sampleGaps_min)

lemma sample_approach_time:
  "closestApproachTime (predictTrajectory defaultSeparationStandards levelAircraft n1)
     (predictTrajectory defaultSeparationStandards climbingAircraft n2) = 30000"
  unfolding closestApproachTime_def combinedSeparations_sample sampleGaps_index
  by (simp add: predictTrajectory_def defaultSeparationStandards_def timeSteps_default
        levelAircraft_def)

lemma sample_positions_at_approach:
  "predictedPositions (predictTrajectory defaultSeparationStandards levelAircraft n1) ! 3 =
     \<lparr>latitude = 40, longitude = -74, altitude = 5000, timestamp = 30000\<rparr>"
  "predictedPositions (predictTrajectory defaultSeparationStandards climbingAircraft n2) ! 3 =
     \<lparr>latitude = 40, longitude = -74, altitude = 4984.252, timestamp = 30000\<rparr>"
  by (simp_all add: predictTrajectory_def defaultSeparationStandards_def timeSteps_default
        predictedPosition_level predictedPosition_climbing)

lemma sample_pair_conflict:
  assumes "0 \<le> now" and "now < 30000"
  shows "detectPairwiseConflict defaultSeparationStandards levelAircraft climbingAircraft
           (Some (predictTrajectory defaultSeparationStandards levelAircraft n1))
           (Some (predictTrajectory defaultSeparationStandards climbingAircraft n2)) now rnd
         = Some (sampleConflict now rnd)"
proof -
  have h: "horizontalSeparation defaultSeparationStandards = 3"
          "timeHorizon defaultSeparationStandards = 300"
    by (simp_all add: defaultSeparationStandards_def)
  show ?thesis
    unfolding detectPairwiseConflict_eq[OF predictTrajectory_positions_nonempty[OF default_horizon]
        predictTrajectory_positions_nonempty[OF default_horizon] predictTrajectory_lengths]
      sample_minimum sample_approach_time combinedSeparations_sample sampleGaps_index
      sample_positions_at_approach h
    using assms
    by (simp add: sampleConflict_def determineConflictType_def calculateSeverity_def)
qed

lemma detectPairwiseConflict_involved:
  "detectPairwiseConflict standards a1 a2 tr1 tr2 now rnd = Some c \<Longrightarrow>
   aircraftInvolved c = [a1, a2]"
  by (auto simp: detectPairwiseConflict_def Let_def
           split: option.splits prod.splits if_splits)

lemma pairsOf_members: "p \<in> set (pairsOf xs) \<Longrightarrow> fst p \<in> set xs \<and> snd p \<in> set xs"
  by (induction xs) auto

lemma detectPair_loop_involved:
  "c \<in> set (foldl (detectPair standards trajectories now rnds) acc ps) \<Longrightarrow>
   c \<in> set acc \<or> (\<exists>p \<in> set ps. aircraftInvolved c = [fst p, snd p])"
proof (induction ps arbitrary: acc)
  case Nil
  then show ?case by simp
next
  case (Cons p ps)
  from Cons.prems
  have "c \<in> set (foldl (detectPair standards trajectories now rnds)
                    (detectPair standards trajectories now rnds acc p) ps)"
    by simp
  from Cons.IH[OF this]
  show ?case
  proof
    assume "c \<in> set (detectPair standards trajectories now rnds acc p)"
    then show ?thesis
      by (auto simp: detectPair_def split: option.splits
               dest: detectPairwiseConflict_involved)
  next
    assume "\<exists>q \<in> set ps. aircraftInvolved c = [fst q, snd q]"
    then show ?thesis by auto
  qed
qed

lemma filterActiveAircraft_member:
  "a \<in> set (filterActiveAircraft aircraft now) \<longleftrightarrow>
   a \<in> set aircraft \<and> now - lastUpdate a < 30000 \<and> acAltitude a > 0"
  by (auto simp: filterActiveAircraft_def Let_def)

lemma detectAllPairs_involved:
  assumes "c \<in> set (detectAllPairs standards trajectories activeAircraft now rnds)"
      and "a \<in> set (aircraftInvolved c)"
  shows "a \<in> set activeAircraft"
proof -
  from assms(1) detectPair_loop_involved[of c standards trajectories now rnds "[]" "pairsOf activeAircraft"]
  obtain p where p: "p \<in> set (pairsOf activeAircraft)" "aircraftInvolved c = [fst p, snd p]"
    by (auto simp: detectAllPairs_def)
  with assms(2) pairsOf_members[OF p(1)] show ?thesis by auto
qed

lemma sample_fields:
  "callsign levelAircraft = ''UAL123''" "callsign climbingAircraft = ''DAL456''"
  "callsign groundAircraft = ''JBU789''"
  "lastUpdate levelAircraft = 0" "lastUpdate climbingAircraft = 0" "lastUpdate groundAircraft = 0"
  "acAltitude levelAircraft = 5000" "acAltitude climbingAircraft = 4000"
  "acAltitude groundAircraft = 0"
  by (simp_all add: levelAircraft_def climbingAircraft_def groundAircraft_def)

lemma isTrajectoryValid_predicted:
  assumes "0 \<le> timeHorizon standards"
  shows "isTrajectoryValid (predictTrajectory standards ac n) ac' now =
           Inr (now - lastUpdate ac < 30000)"
  using predictTrajectory_first_timeStamp[OF assms, of ac n]
  by (auto simp: isTrajectoryValid_def Let_def)

lemma sample_filter:
  "filterActiveAircraft [levelAircraft, climbingAircraft, groundAircraft] 1000 =
     [levelAircraft, climbingAircraft]"
  "filterActiveAircraft [levelAircraft, climbingAircraft] 1000 = [levelAircraft, climbingAircraft]"
  "filterActiveAircraft [levelAircraft, climbingAircraft] 6000 = [levelAircraft, climbingAircraft]"
  by (simp_all add: filterActiveAircraft_def sample_fields)

lemma sample_predictions_first:
  "generateTrajectoryPredictions defaultSeparationStandards [] [levelAircraft, climbingAircraft] 1000
     = (None, sampleTrajectories, sampleTrajectories)"
  by (simp add: generateTrajectoryPredictions_def predictOne_def sample_fields
        sampleTrajectories_def Let_def)

lemma sample_predictions_second:
  "generateTrajectoryPredictions defaultSeparationStandards sampleTrajectories
     [levelAircraft, climbingAircraft] 6000
     = (None, sampleTrajectories, sampleTrajectories)"
  by (simp add: generateTrajectoryPredictions_def predictOne_def sample_fields
        sampleTrajectories_def Let_def isTrajectoryValid_predicted[OF default_horizon])

lemma sample_detected:
  assumes "0 \<le> now" and "now < 30000"
  shows "detectAllPairs defaultSeparationStandards sampleTrajectories
           [levelAircraft, climbingAircraft] now rnds = [sampleConflict now (rnds 0)]"
  using sample_pair_conflict[OF assms]
  by (simp add: detectAllPairs_def detectPair_def sample_fields sampleTrajectories_def)

lemma numberToString_1000: "numberToString 1000 = ''1000''"
  by (simp add: numberToString_def toStringRadix.simps digitChar_def)

lemma numberToString_6000: "numberToString 6000 = ''6000''"
  by (simp add: numberToString_def toStringRadix.simps digitChar_def)

lemma sample_ids:
  "conflictId (sampleConflict 1000 ''k3j9x2m1q'') = ''conflict_1000_k3j9x2m1q''"
  "conflictId (sampleConflict 6000 ''p7w4z8n5t'') = ''conflict_6000_p7w4z8n5t''"
  by (simp_all add: sampleConflict_def numberToString_1000 numberToString_6000)

lemma first_cycle:
  "detectConflicts initialDetectionState [levelAircraft, climbingAircraft] 1000 (\<lambda>k. ''k3j9x2m1q'')
     = (Inr [sampleConflict 1000 ''k3j9x2m1q''], afterFirstCycle)"
  by (simp add: detectConflicts_def sample_filter initialDetectionState_def
        sample_predictions_first sample_detected updateActiveConflicts_def sample_ids
        mapValues_def afterFirstCycle_def Let_def)

lemma second_cycle:
  "detectConflicts afterFirstCycle [levelAircraft, climbingAircraft] 6000 (\<lambda>k. ''p7w4z8n5t'')
     = (Inr [sampleConflict 6000 ''p7w4z8n5t''],
        \<lparr>separationStandards = defaultSeparationStandards,
         activeConflicts = [(''conflict_6000_p7w4z8n5t'', sampleConflict 6000 ''p7w4z8n5t'')],
         conflictHistory = [(sampleConflict 1000 ''k3j9x2m1q'')\<lparr>conflictStatus := RESOLVED\<rparr>],
         trajectoryCache = sampleTrajectories\<rparr>)"
proof -
  have d: "detectedAt (sampleConflict 1000 ''k3j9x2m1q'') = 1000"
    by (simp add: sampleConflict_def)
  show ?thesis
    by (simp add: detectConflicts_def sample_filter afterFirstCycle_def
        sample_predictions_second sample_detected updateActiveConflicts_def sample_ids
        resolveIfAbsent_def moveConflictToHistory_def mapDelete_def d
        mapValues_def Let_def)
qed

lemma sample_detectedInCycle:
  "detectedInCycle initialDetectionState [levelAircraft, climbingAircraft, groundAircraft] 1000
     (\<lambda>k. ''k3j9x2m1q'') = [sampleConflict 1000 ''k3j9x2m1q'']"
  by (simp add: detectedInCycle_def sample_filter initialDetectionState_def
        sample_predictions_first sample_detected Let_def)








subsection \<open>When a pair is in conflict\<close>



lemma filter_mapSet_other:
  "filter (\<lambda>kv. fst kv \<noteq> k) (mapSet m k v) = filter (\<lambda>kv. fst kv \<noteq> k) m"
  by (induction m) auto

lemma resolveIfAbsent_active:
  "activeConflicts (resolveIfAbsent ids now st e) =
     (if fst e \<notin> set ids then filter (\<lambda>kv. fst kv \<noteq> fst e) (activeConflicts st)
      else activeConflicts st)"
  by (simp add: resolveIfAbsent_def moveConflictToHistory_def map_of_mapSet_same mapDelete_def
        filter_mapSet_other Let_def)

lemma resolve_loop_active:
  "activeConflicts (foldl (resolveIfAbsent ids now) st es) =
     filter (\<lambda>kv. fst kv \<in> set ids \<or> fst kv \<notin> fst ` set es) (activeConflicts st)"
proof (induction es arbitrary: st)
  case Nil
  show ?case by simp
next
  case (Cons e es)
  show ?case
    unfolding foldl_Cons Cons.IH resolveIfAbsent_active
    by (auto intro: filter_cong)
qed

lemma mapSet_distinct:
  "distinct (map fst m) \<Longrightarrow>
   distinct (map fst (mapSet m k v)) \<and> set (mapSet m k v) = insert (k, v) {kv \<in> set m. fst kv \<noteq> k}"
proof (induction m)
  case Nil
  show ?case by simp
next
  case (Cons a m)
  then show ?case by (cases a) (auto simp: image_iff)
qed

lemma set_loop_values:
  assumes "distinct (map fst m)"
      and "(k, v) \<in> set (foldl (\<lambda>m c. mapSet m (conflictId c) c) m cs)"
  shows "v \<in> set cs \<or> ((k, v) \<in> set m \<and> k \<notin> conflictId ` set cs)"
  using assms
proof (induction cs arbitrary: m)
  case Nil
  then show ?case by simp
next
  case (Cons c cs)
  let ?m' = "mapSet m (conflictId c) c"
  from mapSet_distinct[OF Cons.prems(1), of "conflictId c" c]
  have d: "distinct (map fst ?m')"
    and s: "set ?m' = insert (conflictId c, c) {kv \<in> set m. fst kv \<noteq> conflictId c}"
    by blast+
  from Cons.prems(2) have "(k, v) \<in> set (foldl (\<lambda>m c. mapSet m (conflictId c) c) ?m' cs)"
    by simp
  from Cons.IH[OF d this] show ?case
    unfolding s by auto
qed

lemma updateActiveConflicts_values:
  assumes "distinct (map fst (activeConflicts st))"
      and "c \<in> set (mapValues (activeConflicts (updateActiveConflicts st newConflicts now)))"
  shows "c \<in> set newConflicts"
proof -
  let ?ids = "map conflictId newConflicts"
  let ?m = "activeConflicts (foldl (resolveIfAbsent ?ids now) st (activeConflicts st))"
  have m: "?m = filter (\<lambda>kv. fst kv \<in> set ?ids \<or> fst kv \<notin> fst ` set (activeConflicts st))
                  (activeConflicts st)"
    by (rule resolve_loop_active)
  have d: "distinct (map fst ?m)"
    unfolding m using assms(1) by (simp add: distinct_map_filter)
  have keys: "\<And>k v. (k, v) \<in> set ?m \<Longrightarrow> k \<in> conflictId ` set newConflicts"
    unfolding m by force
  from assms(2) obtain k where
    "(k, c) \<in> set (foldl (\<lambda>m c. mapSet m (conflictId c) c) ?m newConflicts)"
    by (auto simp: updateActiveConflicts_def mapValues_def Let_def)
  from set_loop_values[OF d this] keys show ?thesis by blast
qed

lemma detectConflicts_returns_detected:
  assumes "distinct (map fst (activeConflicts st))"
      and "fst (detectConflicts st aircraft now rnds) = Inr cs"
      and "c \<in> set cs"
  shows "c \<in> set (detectedInCycle st aircraft now rnds)"
proof (cases "length (filterActiveAircraft aircraft now) < 2")
  case True
  with assms(2,3) show ?thesis by (simp add: detectConflicts_def Let_def)
next
  case False
  obtain thrown trajectories cache where
    g: "generateTrajectoryPredictions (separationStandards st) (trajectoryCache st)
          (filterActiveAircraft aircraft now) now = (thrown, trajectories, cache)"
    by (cases "generateTrajectoryPredictions (separationStandards st) (trajectoryCache st)
          (filterActiveAircraft aircraft now) now") auto
  show ?thesis
  proof (cases thrown)
    case (Some e)
    with assms(2) False g show ?thesis by (simp add: detectConflicts_def Let_def)
  next
    case None
    let ?det = "detectAllPairs (separationStandards st) trajectories
                  (filterActiveAircraft aircraft now) now rnds"
    have cs: "cs = mapValues (activeConflicts
                (updateActiveConflicts (st\<lparr>trajectoryCache := cache\<rparr>) ?det now))"
      using assms(2) False g None by (simp add: detectConflicts_def Let_def)
    have "distinct (map fst (activeConflicts (st\<lparr>trajectoryCache := cache\<rparr>)))"
      using assms(1) by simp
    from updateActiveConflicts_values[OF this] assms(3) cs have "c \<in> set ?det" by blast
    then show ?thesis using False g None by (simp add: detectedInCycle_def Let_def)
  qed
qed

subsection \<open>Aircraft that are filtered out\<close>

text \<open>
  Claim C10. Every aircraft involved in a conflict that a detection cycle newly detects
  is one of the input aircraft, has an altitude above 0 and was last updated less than
  30000 ms before the cycle: an aircraft at altitude 0 or below, or 30 seconds old or
  older, is in no pair that is checked and in no conflict detected by the cycle, of the
  ground type or of any other. The same holds of every conflict in the list that
  \<open>detectConflicts\<close> returns, the active conflicts being a map (no key twice).
\<close>

theorem inactive_aircraft_in_no_new_conflict:
  assumes "a \<in> set (aircraftInvolved c)"
      and "c \<in> set (detectedInCycle st aircraft now rnds)
           \<or> (distinct (map fst (activeConflicts st))
              \<and> (\<exists>cs. fst (detectConflicts st aircraft now rnds) = Inr cs \<and> c \<in> set cs))"
  shows "a \<in> set aircraft \<and> acAltitude a > 0 \<and> now - lastUpdate a < 30000"
proof -
  from assms(2) have "c \<in> set (detectedInCycle st aircraft now rnds)"
    using detectConflicts_returns_detected by blast
  then have "\<exists>trajectories.
      c \<in> set (detectAllPairs (separationStandards st) trajectories
                 (filterActiveAircraft aircraft now) now rnds)"
    by (auto simp: detectedInCycle_def Let_def split: if_splits prod.splits option.splits)
  then have "a \<in> set (filterActiveAircraft aircraft now)"
    using detectAllPairs_involved assms(1) by blast
  then show ?thesis by (simp add: filterActiveAircraft_member)
qed

theorem inactive_aircraft_in_no_new_conflict_witness:
  "sampleConflict 1000 ''k3j9x2m1q'' \<in> set (detectedInCycle initialDetectionState
       [levelAircraft, climbingAircraft, groundAircraft] 1000 (\<lambda>k. ''k3j9x2m1q''))
   \<and> climbingAircraft \<in> set (aircraftInvolved (sampleConflict 1000 ''k3j9x2m1q''))
   \<and> climbingAircraft \<in> set [levelAircraft, climbingAircraft, groundAircraft]
   \<and> acAltitude climbingAircraft > 0 \<and> 1000 - lastUpdate climbingAircraft < 30000
   \<and> acAltitude groundAircraft = 0"
proof -
  have h1: "sampleConflict 1000 ''k3j9x2m1q'' \<in> set (detectedInCycle initialDetectionState
       [levelAircraft, climbingAircraft, groundAircraft] 1000 (\<lambda>k. ''k3j9x2m1q''))"
    by (simp add: sample_detectedInCycle)
  have h2: "climbingAircraft \<in> set (aircraftInvolved (sampleConflict 1000 ''k3j9x2m1q''))"
    by (simp add: sampleConflict_def)
  from inactive_aircraft_in_no_new_conflict[OF h2 disjI1[OF h1]] h1 h2 sample_fields(9)
  show ?thesis by blast
qed

subsection \<open>The cached predictions\<close>




subsection \<open>The identity of a conflict across two cycles\<close>

text \<open>
  Claim C1 does not hold of the code. Two cycles, at the instants 1000 and 6000, see the
  same two aircraft, unchanged and in conflict both times. The first cycle returns a
  record with the identity \<open>conflict_1000_k3j9x2m1q\<close>; the second returns a record for
  the same pair with the identity \<open>conflict_6000_p7w4z8n5t\<close>, and moves the record of
  the first cycle to the history as resolved.
\<close>

theorem conflict_identity_not_stable:
  "fst (detectConflicts initialDetectionState [levelAircraft, climbingAircraft] 1000
          (\<lambda>k. ''k3j9x2m1q'')) = Inr [sampleConflict 1000 ''k3j9x2m1q'']
   \<and> fst (detectConflicts
            (snd (detectConflicts initialDetectionState [levelAircraft, climbingAircraft] 1000
                    (\<lambda>k. ''k3j9x2m1q'')))
            [levelAircraft, climbingAircraft] 6000 (\<lambda>k. ''p7w4z8n5t''))
       = Inr [sampleConflict 6000 ''p7w4z8n5t'']
   \<and> aircraftInvolved (sampleConflict 1000 ''k3j9x2m1q'') = [levelAircraft, climbingAircraft]
   \<and> aircraftInvolved (sampleConflict 6000 ''p7w4z8n5t'') = [levelAircraft, climbingAircraft]
   \<and> conflictId (sampleConflict 1000 ''k3j9x2m1q'') = ''conflict_1000_k3j9x2m1q''
   \<and> conflictId (sampleConflict 6000 ''p7w4z8n5t'') = ''conflict_6000_p7w4z8n5t''
   \<and> conflictId (sampleConflict 6000 ''p7w4z8n5t'') \<noteq> conflictId (sampleConflict 1000 ''k3j9x2m1q'')
   \<and> conflictHistory (snd (detectConflicts
            (snd (detectConflicts initialDetectionState [levelAircraft, climbingAircraft] 1000
                    (\<lambda>k. ''k3j9x2m1q'')))
            [levelAircraft, climbingAircraft] 6000 (\<lambda>k. ''p7w4z8n5t'')))
       = [(sampleConflict 1000 ''k3j9x2m1q'')\<lparr>conflictStatus := RESOLVED\<rparr>]"
  by (simp add: first_cycle second_cycle sample_ids) (simp add: sampleConflict_def)

section \<open>Properties of the resolution suggestions\<close>

lemma executeWithRetryFrom_all_fail:
  assumes "\<forall>k. attempt \<le> k \<and> k \<le> maxRetries config \<longrightarrow> (\<exists>err. operation k = Failed err)"
      and "attempt \<le> maxRetries config"
  shows "\<exists>err. executeWithRetryFrom config operation attempt lastError = Inl (RequestFailed err)"
  using assms
proof (induction config operation attempt lastError rule: executeWithRetryFrom.induct)
  case (1 config operation attempt lastError)
  from "1.prems" obtain err where f: "operation attempt = Failed err" by auto
  show ?case
  proof (cases "\<not> isRetryableError err \<or> attempt = maxRetries config")
    case True
    then show ?thesis
      using f "1.prems"(2) by (subst executeWithRetryFrom.simps) auto
  next
    case False
    then have lt: "attempt + 1 \<le> maxRetries config" using "1.prems"(2) by simp
    have "\<forall>k. attempt + 1 \<le> k \<and> k \<le> maxRetries config \<longrightarrow> (\<exists>err. operation k = Failed err)"
      using "1.prems"(1) by auto
    from "1.IH"[OF "1.prems"(2) f False this lt]
    show ?thesis
      using f False "1.prems"(2) by (subst executeWithRetryFrom.simps) auto
  qed
qed

lemma executeWithRetry_all_fail:
  assumes "\<forall>k \<le> maxRetries config. \<exists>err. operation k = Failed err"
  shows "\<exists>e. executeWithRetry config operation = Inl e"
  using executeWithRetryFrom_all_fail[of 0 config operation None] assms
  unfolding executeWithRetry_def by auto

lemma fallback_after_failure:
  "tryGenerateResolutions jsonParse config operation = Inl e \<Longrightarrow>
   generateConflictResolutions jsonParse config operation = [fallbackResolution]"
  by (simp add: generateConflictResolutions_def)

lemma request_failure_fails_body:
  "executeWithRetry config operation = Inl e \<Longrightarrow>
   tryGenerateResolutions jsonParse config operation = Inl e"
  by (simp add: tryGenerateResolutions_def)

lemma timedOut_execute:
  "executeWithRetry defaultRetryConfig (\<lambda>k. timedOut) =
     Inl (RequestFailed \<lparr>message = ''connect ETIMEDOUT 104.18.7.192:443'',
                      typeProperty = None, statusProperty = None\<rparr>)"
proof -
  have r: "isRetryableError \<lparr>message = ''connect ETIMEDOUT 104.18.7.192:443'',
                      typeProperty = None, statusProperty = None\<rparr>"
    by (simp add: isRetryableError_def)
  have m: "maxRetries defaultRetryConfig = 3" by (simp add: defaultRetryConfig_def)
  show ?thesis
    unfolding executeWithRetry_def
    by (simp add: executeWithRetryFrom.simps[of defaultRetryConfig] m timedOut_def r)
qed

text \<open>
  Claim C9. Whenever the call of the resolution-suggestion service fails (the request
  fails for good, in particular when every attempt up to the retry limit fails or times
  out, or the response has no usable function call, or its arguments do not parse),
  \<open>generateConflictResolutions\<close> throws nothing and returns exactly one option, the
  fallback, whose description is that a manual resolution is required and whose single
  instruction is to contact the supervisor for a manual conflict resolution.
\<close>

theorem failed_collaborator_gives_fallback:
  "(tryGenerateResolutions jsonParse config operation = Inl e \<longrightarrow>
      generateConflictResolutions jsonParse config operation = [fallbackResolution])
   \<and> (executeWithRetry config operation = Inl e \<longrightarrow>
      generateConflictResolutions jsonParse config operation = [fallbackResolution])
   \<and> ((\<forall>k \<le> maxRetries config. \<exists>err. operation k = Failed err) \<longrightarrow>
      generateConflictResolutions jsonParse config operation = [fallbackResolution])
   \<and> length [fallbackResolution] = 1
   \<and> description fallbackResolution = ''Manual resolution required''
   \<and> instructions fallbackResolution = [''Contact supervisor for manual conflict resolution'']"
proof (intro conjI impI)
  show "generateConflictResolutions jsonParse config operation = [fallbackResolution]"
    if "tryGenerateResolutions jsonParse config operation = Inl e"
    using that by (rule fallback_after_failure)
  show "generateConflictResolutions jsonParse config operation = [fallbackResolution]"
    if "executeWithRetry config operation = Inl e"
    using request_failure_fails_body[OF that] by (rule fallback_after_failure)
  show "generateConflictResolutions jsonParse config operation = [fallbackResolution]"
    if "\<forall>k \<le> maxRetries config. \<exists>err. operation k = Failed err"
  proof -
    from executeWithRetry_all_fail[OF that] obtain e' where
      "executeWithRetry config operation = Inl e'" by blast
    from request_failure_fails_body[OF this] show ?thesis by (rule fallback_after_failure)
  qed
qed (simp_all add: fallbackResolution_def)

theorem failed_collaborator_gives_fallback_witness:
  "maxRetries defaultRetryConfig = 3
   \<and> executeWithRetry defaultRetryConfig (\<lambda>k. timedOut) =
       Inl (RequestFailed \<lparr>message = ''connect ETIMEDOUT 104.18.7.192:443'',
                        typeProperty = None, statusProperty = None\<rparr>)
   \<and> tryGenerateResolutions noParse defaultRetryConfig (\<lambda>k. timedOut) =
       Inl (RequestFailed \<lparr>message = ''connect ETIMEDOUT 104.18.7.192:443'',
                        typeProperty = None, statusProperty = None\<rparr>)
   \<and> generateConflictResolutions noParse defaultRetryConfig (\<lambda>k. timedOut) = [fallbackResolution]"
proof -
  have a: "\<forall>k \<le> maxRetries defaultRetryConfig. \<exists>err. timedOut = Failed err"
    by (simp add: timedOut_def)
  have m: "maxRetries defaultRetryConfig = 3" by (simp add: defaultRetryConfig_def)
  have b: "tryGenerateResolutions noParse defaultRetryConfig (\<lambda>k. timedOut) =
       Inl (RequestFailed \<lparr>message = ''connect ETIMEDOUT 104.18.7.192:443'',
                        typeProperty = None, statusProperty = None\<rparr>)"
    by (rule request_failure_fails_body[OF timedOut_execute])
  from failed_collaborator_gives_fallback[of noParse defaultRetryConfig "\<lambda>k. timedOut"
         "RequestFailed \<lparr>message = ''connect ETIMEDOUT 104.18.7.192:443'',
                        typeProperty = None, statusProperty = None\<rparr>"]
       a b m timedOut_execute
  show ?thesis by blast
qed

end
